theory Spec2Isabelle
  imports Main
begin

section \<open>Values, errors and the charm's state\<close>

text \<open>
  The embedding follows \<^verbatim>\<open>src/backups.py\<close> (class \<^verbatim>\<open>PostgreSQLBackups\<close>).
  A leading underscore of a Python name is dropped, since an Isabelle name cannot
  start with one: \<^verbatim>\<open>_list_backups\<close> is \<open>list_backups\<close>.
\<close>

text \<open>
  The values a parameter dictionary or a JSON field holds: a string, a boolean or
  \<^verbatim>\<open>None\<close>.
\<close>

datatype pyval = PStr string | PBool bool | PNone

text \<open>
  Python's truth value of such a value: \<^verbatim>\<open>None\<close>, \<^verbatim>\<open>False\<close> and the empty
  string are false.
\<close>

fun truthy :: "pyval \<Rightarrow> bool" where
  "truthy PNone = False"
| "truthy (PBool b) = b"
| "truthy (PStr s) = (s \<noteq> [])"

text \<open>
  The exceptions that leave the functions modelled here. \<open>Unsupported\<close> is no Python
  exception: it marks a time format this model does not cover.
\<close>

datatype error = ListBackupsError string | ValueError | TimeoutError | AttributeError
  | IndexError | KeyError | TypeError | TimeoutExpired | Unsupported

text \<open>\<^verbatim>\<open>ops.model\<close>: the status of the unit.\<close>

datatype unit_status = ActiveStatus | BlockedStatus string | MaintenanceStatus string
  | WaitingStatus string

text \<open>What an action event ends with: \<^verbatim>\<open>event.fail(msg)\<close> or \<^verbatim>\<open>event.set_results({k: v})\<close>.\<close>

datatype event_outcome = NoOutcome | Fail string | Results string string

text \<open>
  The calls to the collaborators (cluster manager, backup engine, object store, snap
  services), in the order the code makes them.
\<close>

datatype effect =
    ExecuteCommand "string list"
  | UpdateConfig "bool option"
  | ReloadPatroniConfiguration
  | StopPatroni
  | StartPatroni
  | Rmtree string
  | Sleep nat
  | UploadFile pyval string
  | RenderFile string
  | SnapStop
  | SnapRestart

text \<open>
  The mutable state the code writes: the unit's status, the application and unit peer
  data (Python dictionaries of strings), the outcome of the action event, and the trace
  of collaborator calls.
\<close>

record charm =
  status :: unit_status
  app_peer_data :: "string \<rightharpoonup> string"
  unit_peer_data :: "string \<rightharpoonup> string"
  event :: event_outcome
  trace :: "effect list"

text \<open>\<^verbatim>\<open>datetime.datetime\<close>, without microseconds and time zone.\<close>

record datetime =
  year :: nat
  month :: nat
  day :: nat
  hour :: nat
  minute :: nat
  second :: nat

text \<open>One entry of the engine's JSON: \<^verbatim>\<open>{"label": ..., "error": ...}\<close>.\<close>

record backup_entry =
  label :: string
  err :: pyval

text \<open>One repository of the engine's JSON: \<^verbatim>\<open>{"name": ..., "backup": [...]}\<close>.\<close>

record repository =
  name :: string
  backup :: "backup_entry list"

text \<open>
  What the code reads from its collaborators and from \<^verbatim>\<open>constants.py\<close>. The
  standard output of \<^verbatim>\<open>info --output=json\<close> is given as the value
  \<^verbatim>\<open>json.loads\<close> returns for it. The results of the \<^verbatim>\<open>check\<close> command and
  of \<^verbatim>\<open>member_started\<close> inside the retry loop depend on the attempt number. The
  command that removes the cluster runs under a timeout: \<open>None\<close> is its expiry.
\<close>

record env =
  PGBACKREST_EXECUTABLE :: string
  PGBACKREST_CONFIGURATION_FILE :: string
  PGBACKREST_CONF_PATH :: string
  PATRONI_CONF_PATH :: string
  POSTGRESQL_DATA_PATH :: string
  model_name :: string
  cluster_name :: string
  unit_name :: string
  is_leader :: bool
  planned_units :: int
  get_primary :: string
  is_primary :: bool
  member_started :: bool
  relation_present :: bool
  s3_connection_info :: "string \<rightharpoonup> pyval"
  info_result :: "int \<times> repository list \<times> string"
  stanza_create_result :: "int \<times> string \<times> string"
  check_result :: "nat \<Rightarrow> int \<times> string \<times> string"
  member_started_at :: "nat \<Rightarrow> bool"
  backup_result :: "int \<times> string \<times> string"
  remove_result :: "(int \<times> string \<times> string) option"
  server_ping_result :: "int \<times> string \<times> string"
  client_ok :: bool
  upload_ok :: "string \<Rightarrow> bool"
  stop_patroni_ok :: bool
  rmtree_ok :: bool
  data_path_is_dir :: bool
  snap_present :: bool
  is_tls_enabled :: bool
  peer_members_ips :: "string list"
  primary_endpoint :: "string option"
  now :: datetime
  app_name :: string
  juju_version :: string

definition ANOTHER_CLUSTER_REPOSITORY_ERROR_MESSAGE :: string where
  "ANOTHER_CLUSTER_REPOSITORY_ERROR_MESSAGE = ''the S3 repository has backups from another cluster''"


definition FAILED_TO_INITIALIZE_STANZA_ERROR_MESSAGE :: string where
  "FAILED_TO_INITIALIZE_STANZA_ERROR_MESSAGE = ''failed to initialize stanza, check your S3 settings''"

text \<open>
  Modelled from the spec: \<^verbatim>\<open>charm.is_blocked\<close> is a property of the charm class, which
  is not among the sources; the spec's ClusterBlockingState is Active, Maintenance(reason)
  or Blocked(reason), and the unit is blocked when its status is the last.
\<close>

fun is_blocked :: "charm \<Rightarrow> bool" where
  "is_blocked c = (case status c of BlockedStatus _ \<Rightarrow> True | _ \<Rightarrow> False)"

fun status_message :: "unit_status \<Rightarrow> string" where
  "status_message ActiveStatus = []"
| "status_message (BlockedStatus m) = m"
| "status_message (MaintenanceStatus m) = m"
| "status_message (WaitingStatus m) = m"

definition stanza_name :: "env \<Rightarrow> string" where
  "stanza_name e = model_name e @ ''.'' @ cluster_name e"

definition emit :: "effect \<Rightarrow> charm \<Rightarrow> charm" where
  "emit x c = c\<lparr>trace := trace c @ [x]\<rparr>"

section \<open>Strings\<close>

text \<open>
  A character of the model is a code point below 256. The characters \<^verbatim>\<open>str.strip()\<close>
  removes are those \<^verbatim>\<open>str.isspace\<close> accepts; below 256 they are tab, line feed,
  vertical tab, form feed, carriage return (9 to 13), the separators 28 to 31, the space
  (32), the next-line control (133) and the no-break space (160).
\<close>

definition is_space :: "char \<Rightarrow> bool" where
  "is_space ch =
     (let n = (of_char ch :: nat)
      in (9 \<le> n \<and> n \<le> 13) \<or> (28 \<le> n \<and> n \<le> 32) \<or> n = 133 \<or> n = 160)"

definition lstrip_by :: "(char \<Rightarrow> bool) \<Rightarrow> string \<Rightarrow> string" where
  "lstrip_by p s = dropWhile p s"

definition rstrip_by :: "(char \<Rightarrow> bool) \<Rightarrow> string \<Rightarrow> string" where
  "rstrip_by p s = rev (dropWhile p (rev s))"

definition strip_by :: "(char \<Rightarrow> bool) \<Rightarrow> string \<Rightarrow> string" where
  "strip_by p s = rstrip_by p (lstrip_by p s)"

definition is_slash :: "char \<Rightarrow> bool" where
  "is_slash ch = (ch = CHR ''/'')"

text \<open>
  \<^verbatim>\<open>repr\<close> of a list of strings that hold no quote, backslash or control
  character, as an f-string prints it: each item between apostrophes (character 39).
\<close>

definition apostrophe :: char where
  "apostrophe = CHR 0x27"

fun repr_items :: "string list \<Rightarrow> string" where
  "repr_items [] = []"
| "repr_items [x] = apostrophe # x @ [apostrophe]"
| "repr_items (x # xs) = apostrophe # x @ [apostrophe] @ '', '' @ repr_items xs"

definition repr_list :: "string list \<Rightarrow> string" where
  "repr_list xs = ''['' @ repr_items xs @ '']''"

section \<open>Timestamps: \<^verbatim>\<open>datetime.strptime\<close> and \<^verbatim>\<open>datetime.strftime\<close>\<close>

text \<open>
  The model covers the formats built from the directives \<^verbatim>\<open>%Y %m %d %H %M %S\<close>, each at
  most once, and literal ASCII characters that are not white space. Among the code points
  below 256 the decimal digits \<^verbatim>\<open>\d\<close> matches are \<^verbatim>\<open>0\<close> to \<^verbatim>\<open>9\<close>.
\<close>

datatype directive = DY | Dm | Dd | DH | DM | DS

datatype fmt_item = Lit char | Dir directive | Bad char

fun directive_item :: "char \<Rightarrow> fmt_item" where
  "directive_item ch =
     (if ch = CHR ''Y'' then Dir DY else if ch = CHR ''m'' then Dir Dm
      else if ch = CHR ''d'' then Dir Dd else if ch = CHR ''H'' then Dir DH
      else if ch = CHR ''M'' then Dir DM else if ch = CHR ''S'' then Dir DS
      else Bad ch)"

fun literal_item :: "char \<Rightarrow> fmt_item" where
  "literal_item ch =
     (if is_space ch \<or> ch = CHR ''%'' \<or> (of_char ch :: nat) \<ge> 128 then Bad ch else Lit ch)"

fun parse_format :: "string \<Rightarrow> fmt_item list" where
  "parse_format [] = []"
| "parse_format [ch] = [literal_item ch]"
| "parse_format (ch # d # ds) =
     (if ch = CHR ''%'' then directive_item d # parse_format ds
      else literal_item ch # parse_format (d # ds))"

fun is_bad :: "fmt_item \<Rightarrow> bool" where
  "is_bad (Bad _) = True"
| "is_bad _ = False"

fun directives :: "fmt_item list \<Rightarrow> directive list" where
  "directives [] = []"
| "directives (Dir d # xs) = d # directives xs"
| "directives (_ # xs) = directives xs"

definition supported :: "fmt_item list \<Rightarrow> bool" where
  "supported xs = (\<not> list_ex is_bad xs \<and> distinct (directives xs))"

text \<open>
  A character class \<^verbatim>\<open>[a-b]\<close> is the pair of its bounds. \<^verbatim>\<open>_strptime.TimeRE\<close> gives
  each directive a group of alternatives, tried from left to right:
  \<^verbatim>\<open>%Y (\d\d\d\d)  %m (1[0-2]|0[1-9]|[1-9])  %d (3[0-1]|[1-2]\d|0[1-9]|[1-9]| [1-9])\<close>
  \<^verbatim>\<open>%H (2[0-3]|[0-1]\d|\d)  %M ([0-5]\d|\d)  %S (6[0-1]|[0-5]\d|\d)\<close>
\<close>

type_synonym cclass = "char \<times> char"

fun in_class :: "cclass \<Rightarrow> char \<Rightarrow> bool" where
  "in_class (lo, hi) ch = ((of_char lo :: nat) \<le> of_char ch \<and> (of_char ch :: nat) \<le> of_char hi)"

definition digit :: cclass where
  "digit = (CHR ''0'', CHR ''9'')"

definition one :: "char \<Rightarrow> cclass" where
  "one ch = (ch, ch)"

fun alternatives :: "directive \<Rightarrow> cclass list list" where
  "alternatives DY = [[digit, digit, digit, digit]]"
| "alternatives Dm =
     [[one CHR ''1'', (CHR ''0'', CHR ''2'')], [one CHR ''0'', (CHR ''1'', CHR ''9'')],
      [(CHR ''1'', CHR ''9'')]]"
| "alternatives Dd =
     [[one CHR ''3'', (CHR ''0'', CHR ''1'')], [(CHR ''1'', CHR ''2''), digit],
      [one CHR ''0'', (CHR ''1'', CHR ''9'')], [(CHR ''1'', CHR ''9'')],
      [one CHR '' '', (CHR ''1'', CHR ''9'')]]"
| "alternatives DH =
     [[one CHR ''2'', (CHR ''0'', CHR ''3'')], [(CHR ''0'', CHR ''1''), digit], [digit]]"
| "alternatives DM = [[(CHR ''0'', CHR ''5''), digit], [digit]]"
| "alternatives DS =
     [[one CHR ''6'', (CHR ''0'', CHR ''1'')], [(CHR ''0'', CHR ''5''), digit], [digit]]"

text \<open>One alternative against the head of the string: the text it takes and the rest.\<close>

fun match_classes :: "cclass list \<Rightarrow> string \<Rightarrow> (string \<times> string) option" where
  "match_classes [] s = Some ([], s)"
| "match_classes (k # ks) [] = None"
| "match_classes (k # ks) (ch # cs) =
     (if in_class k ch then map_option (\<lambda>(t, r). (ch # t, r)) (match_classes ks cs) else None)"

fun first_some :: "('a \<Rightarrow> 'b option) \<Rightarrow> 'a list \<Rightarrow> 'b option" where
  "first_some f [] = None"
| "first_some f (x # xs) = (case f x of Some y \<Rightarrow> Some y | None \<Rightarrow> first_some f xs)"

text \<open>The pattern is compiled with \<^verbatim>\<open>re.IGNORECASE\<close>: a literal letter matches in both cases.\<close>

definition lower :: "char \<Rightarrow> char" where
  "lower ch = (let n = (of_char ch :: nat) in if 65 \<le> n \<and> n \<le> 90 then char_of (n + 32) else ch)"

text \<open>
  \<^verbatim>\<open>format_regex.match(data_string)\<close>: the first match of the whole pattern at the start
  of the string, in the backtracking order of \<^verbatim>\<open>re\<close> (an alternative is given up when
  the rest of the pattern fails after it). The result is the text of each group and what
  is left of the string.
\<close>

primrec match_items :: "fmt_item list \<Rightarrow> string \<Rightarrow> ((directive \<times> string) list \<times> string) option" where
  "match_items [] s = Some ([], s)"
| "match_items (i # is) s =
     (case i of
        Lit c \<Rightarrow> (case s of [] \<Rightarrow> None
                  | x # xs \<Rightarrow> if lower x = lower c then match_items is xs else None)
      | Dir d \<Rightarrow>
          first_some
            (\<lambda>alt. case match_classes alt s of
                      None \<Rightarrow> None
                    | Some (txt, rest) \<Rightarrow>
                        map_option (\<lambda>(fs, r). ((d, txt) # fs, r)) (match_items is rest))
            (alternatives d)
      | Bad _ \<Rightarrow> None)"

text \<open>\<^verbatim>\<open>int(text)\<close> of a group: decimal digits, after the space \<^verbatim>\<open>%d\<close> may take.\<close>

definition py_int :: "string \<Rightarrow> nat" where
  "py_int txt = foldl (\<lambda>a ch. 10 * a + (of_char ch - 48)) 0 (filter (\<lambda>ch. ch \<noteq> CHR '' '') txt)"

fun set_field :: "datetime \<Rightarrow> directive \<times> string \<Rightarrow> datetime" where
  "set_field dt (DY, t) = dt\<lparr>year := py_int t\<rparr>"
| "set_field dt (Dm, t) = dt\<lparr>month := py_int t\<rparr>"
| "set_field dt (Dd, t) = dt\<lparr>day := py_int t\<rparr>"
| "set_field dt (DH, t) = dt\<lparr>hour := py_int t\<rparr>"
| "set_field dt (DM, t) = dt\<lparr>minute := py_int t\<rparr>"
| "set_field dt (DS, t) = dt\<lparr>second := py_int t\<rparr>"

text \<open>The values of the fields a format does not set.\<close>

definition default_datetime :: datetime where
  "default_datetime = \<lparr>year = 1900, month = 1, day = 1, hour = 0, minute = 0, second = 0\<rparr>"

definition is_leap :: "nat \<Rightarrow> bool" where
  "is_leap y = (y mod 4 = 0 \<and> (y mod 100 \<noteq> 0 \<or> y mod 400 = 0))"

definition days_in_month :: "nat \<Rightarrow> nat \<Rightarrow> nat" where
  "days_in_month y m =
     (if m = 2 then (if is_leap y then 29 else 28)
      else if m = 4 \<or> m = 6 \<or> m = 9 \<or> m = 11 then 30 else 31)"

text \<open>The checks of the \<^verbatim>\<open>datetime\<close> constructor, which raises \<^verbatim>\<open>ValueError\<close>.\<close>

definition valid_datetime :: "datetime \<Rightarrow> bool" where
  "valid_datetime dt =
     (1 \<le> year dt \<and> year dt \<le> 9999 \<and> 1 \<le> month dt \<and> month dt \<le> 12 \<and>
      1 \<le> day dt \<and> day dt \<le> days_in_month (year dt) (month dt) \<and>
      hour dt < 24 \<and> minute dt < 60 \<and> second dt < 60)"

definition strptime :: "string \<Rightarrow> string \<Rightarrow> error + datetime" where
  "strptime data_string format =
     (let items = parse_format format
      in if \<not> supported items then Inl Unsupported
         else case match_items items data_string of
                None \<Rightarrow> Inl ValueError
              | Some (found, rest) \<Rightarrow>
                  if rest \<noteq> [] then Inl ValueError
                  else let dt = foldl set_field default_datetime found
                       in if valid_datetime dt then Inr dt else Inl ValueError)"

text \<open>
  \<^verbatim>\<open>strftime\<close> hands the format to the C library. On Linux, where the charm runs,
  \<^verbatim>\<open>%Y\<close> is the year in decimal with no padding (\<^verbatim>\<open>999\<close> for the year 999, with
  the Python versions up to 3.12), and the other fields are two digits, filled with a zero.
\<close>

definition digit_char :: "nat \<Rightarrow> char" where
  "digit_char n = char_of (48 + n)"

definition pad2 :: "nat \<Rightarrow> string" where
  "pad2 n = [digit_char (n div 10 mod 10), digit_char (n mod 10)]"

fun decimal :: "nat \<Rightarrow> string" where
  "decimal n = (if n < 10 then [digit_char n] else decimal (n div 10) @ [digit_char (n mod 10)])"

fun field_value :: "directive \<Rightarrow> datetime \<Rightarrow> nat" where
  "field_value DY dt = year dt"
| "field_value Dm dt = month dt"
| "field_value Dd dt = day dt"
| "field_value DH dt = hour dt"
| "field_value DM dt = minute dt"
| "field_value DS dt = second dt"

fun render :: "datetime \<Rightarrow> fmt_item \<Rightarrow> string" where
  "render dt (Lit ch) = [ch]"
| "render dt (Bad ch) = [ch]"
| "render dt (Dir DY) = decimal (year dt)"
| "render dt (Dir d) = pad2 (field_value d dt)"

definition strftime :: "datetime \<Rightarrow> string \<Rightarrow> error + string" where
  "strftime dt format =
     (let items = parse_format format
      in if \<not> supported items then Inl Unsupported
         else Inr (concat (map (render dt) items)))"

text \<open>
  Modelled from the spec: \<^verbatim>\<open>constants.py\<close>, which defines the two formats, is not among
  the sources. The spec tells the public backup-id format (a human timestamp) from the
  engine's label format; the values are the formats \<^verbatim>\<open>backups.py\<close> itself writes for
  the same purposes: the time a backup is requested, logged as its backup-id
  (\<^verbatim>\<open>"%Y-%m-%dT%H:%M:%SZ"\<close>), and the label it makes up for a failed backup
  (\<^verbatim>\<open>"%Y%m%d-%H%M%SF"\<close>, the format followed by the type character).
\<close>

definition BACKUP_ID_FORMAT :: string where
  "BACKUP_ID_FORMAT = ''%Y-%m-%dT%H:%M:%SZ''"

definition PGBACKREST_BACKUP_ID_FORMAT :: string where
  "PGBACKREST_BACKUP_ID_FORMAT = ''%Y%m%d-%H%M%S''"

text \<open>
  The two conversions of the code: a label to a backup-id (\<^verbatim>\<open>_list_backups\<close>), and a
  backup-id to the label of the restore directive (\<^verbatim>\<open>_on_restore_action\<close>).
\<close>

definition label_to_backup_id :: "string \<Rightarrow> error + string" where
  "label_to_backup_id lbl =
     (case strptime (butlast lbl) PGBACKREST_BACKUP_ID_FORMAT of
        Inl x \<Rightarrow> Inl x
      | Inr dt \<Rightarrow> strftime dt BACKUP_ID_FORMAT)"

definition backup_id_to_label :: "string \<Rightarrow> error + string" where
  "backup_id_to_label backup_id =
     (case strptime backup_id BACKUP_ID_FORMAT of
        Inl x \<Rightarrow> Inl x
      | Inr dt \<Rightarrow>
          (case strftime dt PGBACKREST_BACKUP_ID_FORMAT of
             Inl x \<Rightarrow> Inl x
           | Inr s \<Rightarrow> Inr (s @ ''F'')))"

section \<open>S3 parameters\<close>

text \<open>\<^verbatim>\<open>dict.setdefault\<close>: the value is stored only when the key is absent.\<close>

definition setdefault :: "string \<Rightarrow> pyval \<Rightarrow> (string \<rightharpoonup> pyval) \<Rightarrow> (string \<rightharpoonup> pyval)" where
  "setdefault k v d = (case d k of None \<Rightarrow> d(k \<mapsto> v) | Some _ \<Rightarrow> d)"

text \<open>The loop that strips every string value of the dictionary.\<close>

fun strip_value :: "pyval \<Rightarrow> pyval" where
  "strip_value (PStr s) = PStr (strip_by is_space s)"
| "strip_value (PBool b) = PBool b"
| "strip_value PNone = PNone"

definition strip_all :: "(string \<rightharpoonup> pyval) \<Rightarrow> (string \<rightharpoonup> pyval)" where
  "strip_all d = (\<lambda>k. map_option strip_value (d k))"

text \<open>
  \<^verbatim>\<open>d[k] = f(d[k])\<close> for a string method \<open>f\<close>: a missing key raises
  \<^verbatim>\<open>KeyError\<close>, a value that is not a string \<^verbatim>\<open>AttributeError\<close>.
\<close>

definition update_str :: "string \<Rightarrow> (string \<Rightarrow> string) \<Rightarrow> (string \<rightharpoonup> pyval)
    \<Rightarrow> error + (string \<rightharpoonup> pyval)" where
  "update_str k f d =
     (case d k of
        None \<Rightarrow> Inl KeyError
      | Some PNone \<Rightarrow> Inl AttributeError
      | Some (PBool _) \<Rightarrow> Inl AttributeError
      | Some (PStr s) \<Rightarrow> Inr (d(k \<mapsto> PStr (f s))))"

definition required_parameters :: "string list" where
  "required_parameters = [''bucket'', ''access-key'', ''secret-key'']"

text \<open>\<^verbatim>\<open>_retrieve_s3_parameters\<close>: the parameters and the missing required keys.\<close>

definition retrieve_s3_parameters :: "env \<Rightarrow> error + ((string \<rightharpoonup> pyval) \<times> string list)" where
  "retrieve_s3_parameters e =
     (let s3_parameters = s3_connection_info e;
          missing_required_parameters =
            filter (\<lambda>param. s3_parameters param = None) required_parameters
      in if missing_required_parameters \<noteq> [] then Inr (Map.empty, missing_required_parameters)
         else
           let p1 = setdefault ''endpoint'' (PStr ''https://s3.amazonaws.com'') s3_parameters;
               p2 = setdefault ''region'' PNone p1;
               p3 = setdefault ''path'' (PStr []) p2;
               p4 = setdefault ''s3-uri-style'' (PStr ''host'') p3;
               p5 = strip_all p4
           in case update_str ''endpoint'' (rstrip_by is_slash) p5 of
                Inl x \<Rightarrow> Inl x
              | Inr p6 \<Rightarrow>
                 (case update_str ''path'' (\<lambda>s. CHR ''/'' # strip_by is_slash s) p6 of
                    Inl x \<Rightarrow> Inl x
                  | Inr p7 \<Rightarrow>
                     (case update_str ''bucket'' (strip_by is_slash) p7 of
                        Inl x \<Rightarrow> Inl x
                      | Inr p8 \<Rightarrow> Inr (p8, []))))"

section \<open>Eligibility\<close>

text \<open>\<^verbatim>\<open>_are_backup_settings_ok\<close>\<close>

definition are_backup_settings_ok :: "env \<Rightarrow> error + (bool \<times> string option)" where
  "are_backup_settings_ok e =
     (if \<not> relation_present e
      then Inr (False, Some ''Relation with s3-integrator charm missing, cannot create/restore backup.'')
      else case retrieve_s3_parameters e of
             Inl x \<Rightarrow> Inl x
           | Inr (_, missing_parameters) \<Rightarrow>
               if missing_parameters \<noteq> []
               then Inr (False, Some (''Missing S3 parameters: '' @ repr_list missing_parameters))
               else Inr (True, None))"

text \<open>\<^verbatim>\<open>_can_unit_perform_backup\<close>\<close>

definition can_unit_perform_backup :: "env \<Rightarrow> charm \<Rightarrow> error + (bool \<times> string option)" where
  "can_unit_perform_backup e c =
     (if is_blocked c then Inr (False, Some ''Unit is in a blocking state'')
      else
        let tls_enabled = (unit_peer_data c ''tls'' \<noteq> None);
            is_primary = (unit_name e = get_primary e)
        in if is_primary \<and> planned_units e > 1 \<and> tls_enabled
           then Inr (False, Some ''Unit cannot perform backups as it is the cluster primary'')
           else if \<not> is_primary \<and> \<not> tls_enabled
           then Inr (False, Some ''Unit cannot perform backups as TLS is not enabled'')
           else if \<not> member_started e
           then Inr (False, Some (''Unit cannot perform backups as it'' @ [apostrophe] @ ''s not in running state''))
           else if app_peer_data c ''stanza'' = None
           then Inr (False, Some ''Stanza was not initialised'')
           else are_backup_settings_ok e)"

section \<open>The catalog\<close>

text \<open>
  An \<^verbatim>\<open>OrderedDict\<close> is the list of its items in insertion order; storing under a key
  it has keeps the key's place.
\<close>

fun dict_set :: "string \<Rightarrow> string \<Rightarrow> (string \<times> string) list \<Rightarrow> (string \<times> string) list" where
  "dict_set k v [] = [(k, v)]"
| "dict_set k v (p # ps) = (if fst p = k then (k, v) # ps else p # dict_set k v ps)"

definition ordered_dict :: "(string \<times> string) list \<Rightarrow> (string \<times> string) list" where
  "ordered_dict items = foldl (\<lambda>d (k, v). dict_set k v d) [] items"

definition keys :: "(string \<times> string) list \<Rightarrow> string list" where
  "keys d = map fst d"

text \<open>
  The generator of \<^verbatim>\<open>_list_backups\<close>: the entries that pass the filter, each turned
  into the pair of its backup-id and the stanza name; the first label that does not parse
  raises.
\<close>

definition shown :: "bool \<Rightarrow> backup_entry \<Rightarrow> bool" where
  "shown show_failed b = (show_failed \<or> \<not> truthy (err b))"

fun id_pairs :: "string \<Rightarrow> backup_entry list \<Rightarrow> error + (string \<times> string) list" where
  "id_pairs stanza [] = Inr []"
| "id_pairs stanza (b # bs) =
     (case label_to_backup_id (label b) of
        Inl x \<Rightarrow> Inl x
      | Inr i \<Rightarrow> (case id_pairs stanza bs of
                    Inl x \<Rightarrow> Inl x
                  | Inr ps \<Rightarrow> Inr ((i, stanza) # ps)))"

text \<open>The backup array of the first repository of the engine's JSON.\<close>

definition entries :: "env \<Rightarrow> backup_entry list" where
  "entries e = (case info_result e of
                  (_, output, _) \<Rightarrow> (case output of [] \<Rightarrow> [] | r # _ \<Rightarrow> backup r))"

definition info_command :: "env \<Rightarrow> string list" where
  "info_command e = [PGBACKREST_EXECUTABLE e, PGBACKREST_CONFIGURATION_FILE e, ''info'', ''--output=json'']"

text \<open>\<^verbatim>\<open>_list_backups\<close>, from the result of the engine's command.\<close>

definition catalog :: "env \<Rightarrow> bool \<Rightarrow> error + (string \<times> string) list" where
  "catalog e show_failed =
     (case info_result e of
        (return_code, output, stderr) \<Rightarrow>
          if return_code \<noteq> 0
          then Inl (ListBackupsError (''Failed to list backups with error: '' @ stderr))
          else case output of
                 [] \<Rightarrow> Inr []
               | repository_info # _ \<Rightarrow>
                   (case id_pairs (name repository_info)
                           (filter (shown show_failed) (backup repository_info)) of
                      Inl x \<Rightarrow> Inl x
                    | Inr items \<Rightarrow> Inr (ordered_dict items)))"

definition list_backups :: "env \<Rightarrow> bool \<Rightarrow> charm \<Rightarrow> (error + (string \<times> string) list) \<times> charm" where
  "list_backups e show_failed c = (catalog e show_failed, emit (ExecuteCommand (info_command e)) c)"

section \<open>The stanza\<close>






definition check_command :: "env \<Rightarrow> string list" where
  "check_command e =
     [PGBACKREST_EXECUTABLE e, PGBACKREST_CONFIGURATION_FILE e, ''--stanza='' @ stanza_name e,
      ''check'']"

text \<open>
  The loop \<^verbatim>\<open>for attempt in Retrying(stop=stop_after_attempt(5), wait=wait_fixed(3))\<close>,
  from attempt \<open>n\<close> on: an attempt that raises is followed by a sleep of 3 seconds and the
  next attempt, unless it was the fifth, which ends the loop with \<^verbatim>\<open>RetryError\<close>
  (\<open>False\<close>).
\<close>

function retrying :: "env \<Rightarrow> nat \<Rightarrow> charm \<Rightarrow> bool \<times> charm" where
  "retrying e n c =
     (let c1 = (if member_started_at e n then emit ReloadPatroniConfiguration c else c);
          c2 = emit (ExecuteCommand (check_command e)) c1;
          return_code = fst (check_result e n)
      in if return_code = 0 then (True, c2)
         else if n \<ge> 5 then (False, c2)
         else retrying e (Suc n) (emit (Sleep 3) c2))"
  by pat_completeness auto
termination
  by (relation "measure (\<lambda>(e, n, c). 5 - n)") auto

text \<open>\<^verbatim>\<open>check_stanza\<close>\<close>

definition check_stanza :: "env \<Rightarrow> charm \<Rightarrow> charm" where
  "check_stanza e c =
     (if \<not> is_leader e \<or> app_peer_data c ''init-pgbackrest'' = None then c
      else
        let c1 = emit (UpdateConfig None) c;
            c2 = c1\<lparr>status := MaintenanceStatus ''checking stanza''\<rparr>;
            c4 = (case retrying e 1 c2 of
                    (True, c3) \<Rightarrow> c3\<lparr>status := ActiveStatus\<rparr>
                  | (False, c3) \<Rightarrow>
                      let c5 = c3\<lparr>app_peer_data := (app_peer_data c3)(''stanza'' \<mapsto> [])\<rparr>;
                          c6 = c5\<lparr>app_peer_data := (app_peer_data c5)(''init-pgbackrest'' := None)\<rparr>;
                          c7 = emit (UpdateConfig None) c6
                      in c7\<lparr>status := BlockedStatus FAILED_TO_INITIALIZE_STANZA_ERROR_MESSAGE\<rparr>)
        in c4\<lparr>app_peer_data := (app_peer_data c4)(''init-pgbackrest'' := None)\<rparr>)"

section \<open>Uploads\<close>

text \<open>\<^verbatim>\<open>os.path.join\<close> of two POSIX paths: an absolute second path discards the first.\<close>

definition path_join :: "string \<Rightarrow> string \<Rightarrow> string" where
  "path_join a b =
     (if b \<noteq> [] \<and> hd b = CHR ''/'' then b
      else if a = [] \<or> last a = CHR ''/'' then a @ b
      else a @ ''/'' @ b)"

text \<open>\<^verbatim>\<open>d[k]\<close> where a string is needed.\<close>

definition get_str :: "(string \<rightharpoonup> pyval) \<Rightarrow> string \<Rightarrow> error + string" where
  "get_str d k =
     (case d k of None \<Rightarrow> Inl KeyError | Some (PStr s) \<Rightarrow> Inr s | Some _ \<Rightarrow> Inl TypeError)"

text \<open>The object key \<^verbatim>\<open>_upload_content_to_s3\<close> uploads to.\<close>

definition upload_key :: "string \<Rightarrow> string \<Rightarrow> string" where
  "upload_key path s3_path = lstrip_by is_slash (path_join path s3_path)"

text \<open>
  \<^verbatim>\<open>_upload_content_to_s3\<close>: the bucket and the key are read before the
  \<^verbatim>\<open>try\<close>, and a missing key or a path that is no string raises. Inside the
  \<^verbatim>\<open>try\<close> the access key, the secret key, the region and the endpoint are looked up
  and the client, the bucket handle and the temporary file are made; when a lookup fails,
  the bucket is \<^verbatim>\<open>None\<close> or the SDK refuses (\<open>client_ok\<close> is false), the result is
  \<^verbatim>\<open>False\<close> and \<^verbatim>\<open>upload_file\<close> is not called. Otherwise it is called, and
  whether it succeeds for a key is the store's answer.
\<close>

definition client_ready :: "env \<Rightarrow> (string \<rightharpoonup> pyval) \<Rightarrow> bool" where
  "client_ready e s3_parameters =
     (s3_parameters ''access-key'' \<noteq> None \<and> s3_parameters ''secret-key'' \<noteq> None
      \<and> s3_parameters ''region'' \<noteq> None \<and> s3_parameters ''endpoint'' \<noteq> None
      \<and> s3_parameters ''bucket'' \<noteq> Some PNone \<and> client_ok e)"

definition upload_content_to_s3 :: "env \<Rightarrow> string \<Rightarrow> string \<Rightarrow> (string \<rightharpoonup> pyval) \<Rightarrow> charm
    \<Rightarrow> (error + bool) \<times> charm" where
  "upload_content_to_s3 e content s3_path s3_parameters c =
     (case s3_parameters ''bucket'' of
        None \<Rightarrow> (Inl KeyError, c)
      | Some bucket_name \<Rightarrow>
          (case get_str s3_parameters ''path'' of
             Inl x \<Rightarrow> (Inl x, c)
           | Inr path \<Rightarrow>
               let key = upload_key path s3_path
               in if \<not> client_ready e s3_parameters then (Inr False, c)
                  else (Inr (upload_ok e key), emit (UploadFile bucket_name key) c)))"

section \<open>The backup\<close>

definition newline :: char where
  "newline = CHR 0x0A"

text \<open>The log both branches of \<^verbatim>\<open>_run_backup\<close> upload.\<close>

definition logs :: "string \<Rightarrow> string \<Rightarrow> string" where
  "logs stdout stderr =
     ''Stdout:'' @ [newline] @ stdout @ [newline, newline] @ ''Stderr:'' @ [newline] @ stderr
       @ [newline]"

text \<open>
  \<^verbatim>\<open>re.findall(r"(new backup label = )([0-9]{8}[-][0-9]{6}[F])$", stdout, re.MULTILINE)\<close>
  and the second group of its first item: the leftmost place where the text, eight
  digits, a hyphen, six digits and \<^verbatim>\<open>F\<close> stand before a line's end.
\<close>

definition is_digit :: "char \<Rightarrow> bool" where
  "is_digit ch = in_class digit ch"

definition label_at :: "string \<Rightarrow> string option" where
  "label_at s =
     (let p = ''new backup label = '';
          r = drop (length p) s;
          l = take 16 r;
          t = drop 16 r
      in if take (length p) s = p \<and> length l = 16
            \<and> list_all is_digit (take 8 l) \<and> l ! 8 = CHR ''-''
            \<and> list_all is_digit (take 6 (drop 9 l)) \<and> l ! 15 = CHR ''F''
            \<and> (t = [] \<or> hd t = newline)
         then Some l else None)"

fun find_label :: "string \<Rightarrow> string option" where
  "find_label [] = None"
| "find_label (ch # cs) =
     (case label_at (ch # cs) of Some l \<Rightarrow> Some l | None \<Rightarrow> find_label cs)"

definition backup_command :: "env \<Rightarrow> string list" where
  "backup_command e =
     [PGBACKREST_EXECUTABLE e, PGBACKREST_CONFIGURATION_FILE e, ''--stanza='' @ stanza_name e,
      ''--log-level-console=debug'', ''--type=full'', ''backup'']
     @ (if is_primary e then [''--no-backup-standby''] else [])"

definition log_path :: "env \<Rightarrow> string \<Rightarrow> string" where
  "log_path e backup_id = ''backup/'' @ stanza_name e @ ''/'' @ backup_id @ ''/backup.log''"

text \<open>\<^verbatim>\<open>_run_backup\<close>: the exception it raises, if any, and the state it leaves.\<close>

definition run_backup :: "env \<Rightarrow> (string \<rightharpoonup> pyval) \<Rightarrow> charm \<Rightarrow> error option \<times> charm" where
  "run_backup e s3_parameters c =
     (let c1 = emit (ExecuteCommand (backup_command e)) c
      in case backup_result e of
           (return_code, stdout, stderr) \<Rightarrow>
             if return_code \<noteq> 0 then
               (case (case find_label stdout of
                        Some l \<Rightarrow> Inr l
                      | None \<Rightarrow> strftime (now e) ''%Y%m%d-%H%M%SF'') of
                  Inl x \<Rightarrow> (Some x, c1)
                | Inr backup_id \<Rightarrow>
                    (case get_str s3_parameters ''path'' of
                       Inl x \<Rightarrow> (Some x, c1)
                     | Inr path \<Rightarrow>
                         (case upload_content_to_s3 e (logs stdout stderr)
                                 (path_join path (log_path e backup_id)) s3_parameters c1 of
                            (Inl x, c2) \<Rightarrow> (Some x, c2)
                          | (Inr _, c2) \<Rightarrow>
                              (None, c2\<lparr>event := Fail (''Failed to backup PostgreSQL with error: '' @ stderr)\<rparr>))))
             else
               (case list_backups e True c1 of
                  (Inl (ListBackupsError _), c2) \<Rightarrow>
                    (None, c2\<lparr>event := Fail ''Failed to retrieve backup id''\<rparr>)
                | (Inl x, c2) \<Rightarrow> (Some x, c2)
                | (Inr backups, c2) \<Rightarrow>
                    if keys backups = [] then (Some IndexError, c2)
                    else
                      let backup_id = last (keys backups)
                      in case get_str s3_parameters ''path'' of
                           Inl x \<Rightarrow> (Some x, c2)
                         | Inr path \<Rightarrow>
                             (case upload_content_to_s3 e (logs stdout stderr)
                                     (path_join path (log_path e backup_id)) s3_parameters c2 of
                                (Inl x, c3) \<Rightarrow> (Some x, c3)
                              | (Inr uploaded, c3) \<Rightarrow>
                                  if \<not> uploaded
                                  then (None, c3\<lparr>event := Fail ''Error uploading logs to S3''\<rparr>)
                                  else (None, c3\<lparr>event := Results ''backup-status'' ''backup created''\<rparr>))))"

text \<open>\<^verbatim>\<open>_change_connectivity_to_database\<close>\<close>

definition change_connectivity_to_database :: "bool \<Rightarrow> charm \<Rightarrow> charm" where
  "change_connectivity_to_database connectivity c =
     emit (UpdateConfig None)
       (c\<lparr>unit_peer_data := (unit_peer_data c)(''connectivity'' \<mapsto> (if connectivity then ''on'' else ''off''))\<rparr>)"

definition metadata :: "env \<Rightarrow> string \<Rightarrow> string" where
  "metadata e datetime_backup_requested =
     ''Date Backup Requested: '' @ datetime_backup_requested @ [newline]
     @ ''Model Name: '' @ model_name e @ [newline]
     @ ''Application Name: '' @ app_name e @ [newline]
     @ ''Unit Name: '' @ unit_name e @ [newline]
     @ ''Juju Version: '' @ juju_version e @ [newline]"

text \<open>\<^verbatim>\<open>_on_create_backup_action\<close>\<close>

definition on_create_backup_action :: "env \<Rightarrow> charm \<Rightarrow> error option \<times> charm" where
  "on_create_backup_action e c =
     (case can_unit_perform_backup e c of
        Inl x \<Rightarrow> (Some x, c)
      | Inr (can, validation_message) \<Rightarrow>
          if \<not> can then (None, c\<lparr>event := Fail (case validation_message of Some m \<Rightarrow> m | None \<Rightarrow> ''None'')\<rparr>)
          else case retrieve_s3_parameters e of
                 Inl x \<Rightarrow> (Some x, c)
               | Inr (s3_parameters, _) \<Rightarrow>
                  (case strftime (now e) ''%Y-%m-%dT%H:%M:%SZ'' of
                     Inl x \<Rightarrow> (Some x, c)
                   | Inr datetime_backup_requested \<Rightarrow>
                      (case get_str s3_parameters ''path'' of
                         Inl x \<Rightarrow> (Some x, c)
                       | Inr path \<Rightarrow>
                          (case upload_content_to_s3 e (metadata e datetime_backup_requested)
                                  (path_join path (''backup/'' @ stanza_name e @ ''/latest''))
                                  s3_parameters c of
                             (Inl x, c1) \<Rightarrow> (Some x, c1)
                           | (Inr uploaded, c1) \<Rightarrow>
                               if \<not> uploaded
                               then (None, c1\<lparr>event := Fail ''Failed to upload metadata to provided S3''\<rparr>)
                               else
                                 let c2 = (if \<not> is_primary e
                                           then change_connectivity_to_database False c1 else c1);
                                     c3 = c2\<lparr>status := MaintenanceStatus ''creating backup''\<rparr>;
                                     c4 = emit (UpdateConfig (Some True)) c3
                                 in case run_backup e s3_parameters c4 of
                                      (Some x, c5) \<Rightarrow> (Some x, c5)
                                    | (None, c5) \<Rightarrow>
                                        let c6 = (if \<not> is_primary e
                                                  then change_connectivity_to_database True c5 else c5);
                                            c7 = emit (UpdateConfig (Some False)) c6
                                        in (None, c7\<lparr>status := ActiveStatus\<rparr>)))))"

section \<open>The restore\<close>

text \<open>\<^verbatim>\<open>_pre_restore_checks\<close>; the parameter is \<^verbatim>\<open>event.params.get("backup-id")\<close>.\<close>

definition pre_restore_checks :: "env \<Rightarrow> string option \<Rightarrow> charm \<Rightarrow> (error + bool) \<times> charm" where
  "pre_restore_checks e backup_id c =
     (case are_backup_settings_ok e of
        Inl x \<Rightarrow> (Inl x, c)
      | Inr (are_ok, validation_message) \<Rightarrow>
          if \<not> are_ok
          then (Inr False, c\<lparr>event := Fail (case validation_message of Some m \<Rightarrow> m | None \<Rightarrow> ''None'')\<rparr>)
          else if backup_id = None \<or> backup_id = Some []
          then (Inr False, c\<lparr>event := Fail ''Missing backup-id to restore''\<rparr>)
          else if is_blocked c \<and> status_message (status c) \<noteq> ANOTHER_CLUSTER_REPOSITORY_ERROR_MESSAGE
          then (Inr False, c\<lparr>event := Fail ''Cluster or unit is in a blocking state''\<rparr>)
          else if planned_units e > 1
          then (Inr False, c\<lparr>event :=
                  Fail ''Unit cannot restore backup as there are more than one unit in the cluster''\<rparr>)
          else if \<not> is_leader e
          then (Inr False, c\<lparr>event :=
                  Fail ''Unit cannot restore backup as it was not elected the leader unit yet''\<rparr>)
          else (Inr True, c))"

text \<open>\<^verbatim>\<open>_empty_data_files\<close>\<close>

definition empty_data_files :: "env \<Rightarrow> charm \<Rightarrow> bool \<times> charm" where
  "empty_data_files e c =
     (if data_path_is_dir e then (rmtree_ok e, emit (Rmtree (POSTGRESQL_DATA_PATH e)) c)
      else (True, c))"

text \<open>\<^verbatim>\<open>_restart_database\<close>\<close>

definition restart_database :: "charm \<Rightarrow> charm" where
  "restart_database c =
     emit StartPatroni (emit (UpdateConfig None)
       (c\<lparr>app_peer_data := (app_peer_data c)(''restoring-backup'' \<mapsto> [])\<rparr>))"

definition remove_command :: "env \<Rightarrow> string list" where
  "remove_command e =
     [''charmed-postgresql.patronictl'', ''-c'', PATRONI_CONF_PATH e @ ''/patroni.yaml'', ''remove'',
      cluster_name e]"

definition lookup :: "(string \<times> string) list \<Rightarrow> string \<Rightarrow> string" where
  "lookup d k = (case map_of d k of Some v \<Rightarrow> v | None \<Rightarrow> [])"

text \<open>\<^verbatim>\<open>_on_restore_action\<close>: the exception it raises, if any, and the state it leaves.\<close>

definition on_restore_action :: "env \<Rightarrow> string option \<Rightarrow> charm \<Rightarrow> error option \<times> charm" where
  "on_restore_action e param c =
     (case pre_restore_checks e param c of
        (Inl x, c1) \<Rightarrow> (Some x, c1)
      | (Inr False, c1) \<Rightarrow> (None, c1)
      | (Inr True, c1) \<Rightarrow>
          let backup_id = (case param of Some i \<Rightarrow> i | None \<Rightarrow> [])
          in case list_backups e False c1 of
               (Inl (ListBackupsError _), c2) \<Rightarrow>
                 (None, c2\<lparr>event := Fail ''Failed to retrieve backup id''\<rparr>)
             | (Inl x, c2) \<Rightarrow> (Some x, c2)
             | (Inr backups, c2) \<Rightarrow>
                 if backup_id \<notin> set (keys backups)
                 then (None, c2\<lparr>event := Fail (''Invalid backup-id: '' @ backup_id)\<rparr>)
                 else
                   let c3 = c2\<lparr>status := MaintenanceStatus ''restoring backup''\<rparr>;
                       c4 = emit StopPatroni c3
                   in if \<not> stop_patroni_ok e
                      then (None, c4\<lparr>event := Fail ''Failed to stop database service''\<rparr>)
                      else case empty_data_files e c4 of
                             (False, c5) \<Rightarrow>
                               (None, restart_database
                                  (c5\<lparr>event := Fail ''Failed to remove contents of the data directory''\<rparr>))
                           | (True, c5) \<Rightarrow>
                               (case backup_id_to_label backup_id of
                                  Inl x \<Rightarrow> (Some x, c5)
                                | Inr lbl \<Rightarrow>
                                    let c6 = c5\<lparr>app_peer_data := (app_peer_data c5)
                                               (''restoring-backup'' \<mapsto> lbl,
                                                ''restore-stanza'' \<mapsto> lookup backups backup_id)\<rparr>;
                                        c7 = emit (UpdateConfig None) c6;
                                        c8 = emit StartPatroni c7;
                                        c9 = emit (ExecuteCommand (remove_command e)) c8
                                    in case remove_result e of
                                         None \<Rightarrow> (Some TimeoutExpired, c9)
                                       | Some (return_code, _, stderr) \<Rightarrow>
                                           if return_code \<noteq> 0
                                           then (None, c9\<lparr>event := Fail
                                                   (''Failed to remove previous cluster information with error: '' @ stderr)\<rparr>)
                                           else (None, c9\<lparr>event := Results ''restore-status'' ''restore started''\<rparr>)))"

section \<open>Sample inputs\<close>

text \<open>
  A single-unit cluster whose unit is leader and primary, with complete S3 settings and a
  catalog of one finished and one failed backup; the theorems below are instantiated at
  variations of it.
\<close>

definition s3_info0 :: "string \<rightharpoonup> pyval" where
  "s3_info0 = [''bucket'' \<mapsto> PStr ''pg-backups'', ''access-key'' \<mapsto> PStr ''AK'',
               ''secret-key'' \<mapsto> PStr ''SK'', ''path'' \<mapsto> PStr ''/prod/'']"

definition env0 :: env where
  "env0 = \<lparr>PGBACKREST_EXECUTABLE = ''pgbackrest'',
     PGBACKREST_CONFIGURATION_FILE = ''--config=/etc/pgbackrest.conf'',
     PGBACKREST_CONF_PATH = ''/etc/pgbackrest'',
     PATRONI_CONF_PATH = ''/etc/patroni'',
     POSTGRESQL_DATA_PATH = ''/var/lib/postgresql'',
     model_name = ''dev'', cluster_name = ''postgresql'', unit_name = ''postgresql/0'',
     is_leader = True, planned_units = 1, get_primary = ''postgresql/0'', is_primary = True,
     member_started = True, relation_present = True, s3_connection_info = s3_info0,
     info_result = (0, [\<lparr>name = ''dev.postgresql'',
        backup = [\<lparr>label = ''20230105-123456F'', err = PBool False\<rparr>,
                  \<lparr>label = ''20230106-010203F'', err = PBool True\<rparr>]\<rparr>], []),
     stanza_create_result = (0, [], []),
     check_result = (\<lambda>n. (0, [], [])),
     member_started_at = (\<lambda>n. True),
     backup_result = (0, [], []),
     remove_result = Some (0, [], []),
     server_ping_result = (0, [], []),
     client_ok = True, upload_ok = (\<lambda>k. True),
     stop_patroni_ok = True, rmtree_ok = True, data_path_is_dir = True, snap_present = True,
     is_tls_enabled = True, peer_members_ips = [''10.0.0.2''],
     primary_endpoint = Some ''10.0.0.1'',
     now = \<lparr>year = 2023, month = 1, day = 7, hour = 8, minute = 9, second = 10\<rparr>,
     app_name = ''postgresql'', juju_version = ''3.1.5''\<rparr>"

definition charm0 :: charm where
  "charm0 = \<lparr>status = ActiveStatus, app_peer_data = [''stanza'' \<mapsto> ''dev.postgresql''],
     unit_peer_data = Map.empty, event = NoOutcome, trace = []\<rparr>"

text \<open>
  The two role checks of \<^verbatim>\<open>_can_unit_perform_backup\<close> pass: the unit is not a
  primary with other units planned and TLS, and not a replica without TLS.
\<close>

definition role_allowed :: "env \<Rightarrow> charm \<Rightarrow> bool" where
  "role_allowed e c =
     (\<not> (unit_name e = get_primary e \<and> planned_units e > 1 \<and> unit_peer_data c ''tls'' \<noteq> None)
      \<and> \<not> (unit_name e \<noteq> get_primary e \<and> unit_peer_data c ''tls'' = None))"


text \<open>
  The string a parameter dictionary holds under a key, or the default when the key is
  absent; nothing when the value is not a string.
\<close>

definition str_or :: "(string \<rightharpoonup> pyval) \<Rightarrow> string \<Rightarrow> string \<Rightarrow> string option" where
  "str_or d k dflt = (case d k of None \<Rightarrow> Some dflt | Some (PStr s) \<Rightarrow> Some s | Some _ \<Rightarrow> None)"

text \<open>S3 settings whose endpoint ends with a space and a slash, and that give no path.\<close>

definition env_slash :: env where
  "env_slash = env0\<lparr>s3_connection_info :=
     [''bucket'' \<mapsto> PStr ''pg-backups'', ''access-key'' \<mapsto> PStr ''AK'',
      ''secret-key'' \<mapsto> PStr ''SK'', ''endpoint'' \<mapsto> PStr ''http://host /'']\<rparr>"

text \<open>A leader with the init-pending marker set, and an engine whose check always fails.\<close>

definition charm_init :: charm where
  "charm_init = charm0\<lparr>app_peer_data :=
     [''stanza'' \<mapsto> ''dev.postgresql'', ''init-pgbackrest'' \<mapsto> ''True'']\<rparr>"

definition env_check_fails :: env where
  "env_check_fails = env0\<lparr>check_result := (\<lambda>n. (82, [], ''unable to find primary''))\<rparr>"


text \<open>
  The parameters \<^verbatim>\<open>_retrieve_s3_parameters\<close> returns for complete settings, an object
  store that refuses every upload, and an engine whose backup command fails.
\<close>

definition s3_ready :: "string \<rightharpoonup> pyval" where
  "s3_ready = [''bucket'' \<mapsto> PStr ''pg-backups'', ''access-key'' \<mapsto> PStr ''AK'',
               ''secret-key'' \<mapsto> PStr ''SK'', ''path'' \<mapsto> PStr ''/prod'',
               ''endpoint'' \<mapsto> PStr ''https://s3.amazonaws.com'', ''region'' \<mapsto> PNone,
               ''s3-uri-style'' \<mapsto> PStr ''host'']"

definition env_upload_fails :: env where
  "env_upload_fails = env0\<lparr>upload_ok := (\<lambda>k. False)\<rparr>"

definition env_backup_fails :: env where
  "env_backup_fails = env0\<lparr>backup_result := (1, ''P00 ERROR'', ''unable to back up'')\<rparr>"

text \<open>
  An engine whose listing fails; a catalog whose only backup is incremental; and a catalog
  whose only backup is of the year 999.
\<close>

definition env_listing_fails :: env where
  "env_listing_fails = env0\<lparr>info_result := (1, [], ''unable to open repository'')\<rparr>"

definition env_incremental :: env where
  "env_incremental = env0\<lparr>info_result :=
     (0, [\<lparr>name = ''dev.postgresql'',
            backup = [\<lparr>label = ''20230107-101112I'', err = PBool False\<rparr>]\<rparr>], [])\<rparr>"

definition env_old :: env where
  "env_old = env0\<lparr>info_result :=
     (0, [\<lparr>name = ''dev.postgresql'',
            backup = [\<lparr>label = ''09990105-123456F'', err = PBool False\<rparr>]\<rparr>], [])\<rparr>"

section \<open>Auxiliary definitions of the proofs\<close>

text \<open>The values a directive's group accepts, and the text of a year of four digits.\<close>

fun field_ok :: "directive \<Rightarrow> nat \<Rightarrow> bool" where
  "field_ok DY v = (v \<le> 9999)"
| "field_ok Dm v = (1 \<le> v \<and> v \<le> 12)"
| "field_ok Dd v = (1 \<le> v \<and> v \<le> 31)"
| "field_ok DH v = (v \<le> 23)"
| "field_ok DM v = (v \<le> 59)"
| "field_ok DS v = (v \<le> 59)"

definition pad4 :: "nat \<Rightarrow> string" where
  "pad4 n = [digit_char (n div 1000 mod 10), digit_char (n div 100 mod 10),
             digit_char (n div 10 mod 10), digit_char (n mod 10)]"

fun pad :: "directive \<Rightarrow> nat \<Rightarrow> string" where
  "pad DY v = pad4 v"
| "pad d v = pad2 v"


definition new_trace :: "charm \<Rightarrow> charm \<Rightarrow> effect list" where
  "new_trace c c' = drop (length (trace c)) (trace c')"

section \<open>Timestamps: parsing what was printed\<close>

declare decimal.simps [simp del]

lemma of_char_digit_char: "n < 10 \<Longrightarrow> (of_char (digit_char n) :: nat) = 48 + n"
  by (simp add: digit_char_def)

lemma in_class_digit_char:
  "n < 10 \<Longrightarrow> in_class (lo, hi) (digit_char n) = ((of_char lo :: nat) \<le> 48 + n \<and> 48 + n \<le> (of_char hi :: nat))"
  by (simp add: of_char_digit_char)

lemma first_some_pad2:
  assumes "field_ok d v" "d \<noteq> DY" "k (pad2 v) rest = Some y"
  shows "first_some (\<lambda>alt. case match_classes alt (pad2 v @ rest) of None \<Rightarrow> None
                              | Some (txt, r) \<Rightarrow> k txt r) (alternatives d) = Some y"
proof -
  define a where "a = v div 10 mod 10"
  define b where "b = v mod 10"
  have ab: "a < 10" "b < 10" by (simp_all add: a_def b_def)
  have p: "pad2 v = [digit_char a, digit_char b]" by (simp add: pad2_def a_def b_def)
  have v: "v < 100 \<Longrightarrow> v = 10 * a + b" unfolding a_def b_def by simp
  show ?thesis
    using assms ab v unfolding p
    by (cases d) (auto simp: in_class_digit_char digit_def one_def simp del: in_class.simps)
qed

lemma first_some_pad4:
  assumes "k (pad4 v) rest = Some y"
  shows "first_some (\<lambda>alt. case match_classes alt (pad4 v @ rest) of None \<Rightarrow> None
                              | Some (txt, r) \<Rightarrow> k txt r) (alternatives DY) = Some y"
proof -
  have le: "\<And>n::nat. n mod 10 \<le> 9" by arith
  show ?thesis
    using assms by (simp add: pad4_def in_class_digit_char digit_def le del: in_class.simps)
qed

lemma first_some_pad:
  assumes "field_ok d v" "k (pad d v) rest = Some y"
  shows "first_some (\<lambda>alt. case match_classes alt (pad d v @ rest) of None \<Rightarrow> None
                              | Some (txt, r) \<Rightarrow> k txt r) (alternatives d) = Some y"
proof (cases "d = DY")
  case True
  then show ?thesis using assms first_some_pad4 [of k v rest y] by simp
next
  case False
  then have "pad d v = pad2 v" by (cases d) simp_all
  then show ?thesis using assms False first_some_pad2 [of d v k rest y] by simp
qed

lemma digit_char_not_space: "n < 10 \<Longrightarrow> digit_char n \<noteq> CHR '' ''"
proof
  assume "n < 10" and "digit_char n = CHR '' ''"
  then have "(of_char (digit_char n) :: nat) = of_char CHR '' ''" by simp
  with \<open>n < 10\<close> show False by (simp add: of_char_digit_char)
qed

lemma py_int_pad2: "v < 100 \<Longrightarrow> py_int (pad2 v) = v"
  by (simp add: py_int_def pad2_def digit_char_not_space of_char_digit_char)

lemma decimal4: "(v::nat) < 10000 \<Longrightarrow>
    1000 * (v div 1000) + 100 * (v div 100 mod 10) + 10 * (v div 10 mod 10) + v mod 10 = v"
proof -
  have a: "v div 100 = (v div 10) div 10" by (simp add: div_mult2_eq)
  have b: "v div 1000 = ((v div 10) div 10) div 10" by (simp add: div_mult2_eq)
  have c: "\<And>n::nat. 10 * (n div 10) + n mod 10 = n" by simp
  from c [of v] c [of "v div 10"] c [of "v div 10 div 10"] show ?thesis
    unfolding a b by linarith
qed

lemma py_int_pad4: "v < 10000 \<Longrightarrow> py_int (pad4 v) = v"
  by (simp add: py_int_def pad4_def digit_char_not_space of_char_digit_char decimal4)

lemma decimal_pad4:
  assumes "1000 \<le> n" "n \<le> 9999"
  shows "decimal n = pad4 n"
proof -
  have a: "n div 100 = (n div 10) div 10" by (simp add: div_mult2_eq)
  have b: "n div 1000 = ((n div 10) div 10) div 10" by (simp add: div_mult2_eq)
  have 1: "\<not> n < 10" "\<not> n div 10 < 10" "\<not> n div 10 div 10 < 10" "n div 10 div 10 div 10 < 10"
    using assms by simp_all
  have "decimal n = [digit_char (n div 10 div 10 div 10), digit_char (n div 10 div 10 mod 10),
                     digit_char (n div 10 mod 10), digit_char (n mod 10)]"
    using 1 by (simp add: decimal.simps [of n] decimal.simps [of "n div 10"]
        decimal.simps [of "n div 10 div 10"] decimal.simps [of "n div 10 div 10 div 10"])
  then show ?thesis using 1(4) by (simp add: pad4_def a b)
qed

lemma render_Dir:
  "1000 \<le> year dt \<Longrightarrow> year dt \<le> 9999 \<Longrightarrow> render dt (Dir d) = pad d (field_value d dt)"
  by (cases d) (simp_all add: decimal_pad4)

lemma valid_field_ok: "valid_datetime dt \<Longrightarrow> field_ok d (field_value d dt)"
  by (cases d) (auto simp: valid_datetime_def days_in_month_def split: if_splits)

lemma match_items_render:
  assumes "valid_datetime dt" "\<not> list_ex is_bad items" "1000 \<le> year dt"
  shows "match_items items (concat (map (render dt) items) @ rest) =
           Some (map (\<lambda>d. (d, pad d (field_value d dt))) (directives items), rest)"
  using assms(2)
proof (induction items arbitrary: rest)
  case Nil
  then show ?case by simp
next
  case (Cons i items)
  then have IH: "\<And>r. match_items items (concat (map (render dt) items) @ r) =
           Some (map (\<lambda>d. (d, pad d (field_value d dt))) (directives items), r)" by simp
  show ?case
  proof (cases i)
    case (Lit c)
    then show ?thesis using IH by simp
  next
    case (Dir d)
    have "first_some (\<lambda>alt. case match_classes alt (pad d (field_value d dt) @ (concat (map (render dt) items) @ rest)) of None \<Rightarrow> None
                              | Some (txt, r) \<Rightarrow> map_option (\<lambda>(fs, r). ((d, txt) # fs, r)) (match_items items r)) (alternatives d)
          = Some ((d, pad d (field_value d dt)) # map (\<lambda>d. (d, pad d (field_value d dt))) (directives items), rest)"
      by (rule first_some_pad [OF valid_field_ok [OF assms(1)]]) (simp add: IH)
    moreover have "year dt \<le> 9999" using assms(1) by (simp add: valid_datetime_def)
    ultimately show ?thesis using Dir assms(3) by (simp add: render_Dir)
  next
    case (Bad c)
    then show ?thesis using Cons.prems by simp
  qed
qed

lemma strptime_valid: "strptime s f = Inr dt \<Longrightarrow> valid_datetime dt"
  by (auto simp: strptime_def Let_def split: if_splits option.splits prod.splits)

lemma valid_bounds:
  assumes "valid_datetime dt"
  shows "year dt < 10000" "month dt < 100" "day dt < 100" "hour dt < 100" "minute dt < 100"
    "second dt < 100"
  using assms by (auto simp: valid_datetime_def days_in_month_def split: if_splits)

lemma parse_pg: "parse_format PGBACKREST_BACKUP_ID_FORMAT =
  [Dir DY, Dir Dm, Dir Dd, Lit CHR ''-'', Dir DH, Dir DM, Dir DS]"
  by (simp add: PGBACKREST_BACKUP_ID_FORMAT_def is_space_def)

lemma parse_bid: "parse_format BACKUP_ID_FORMAT =
  [Dir DY, Lit CHR ''-'', Dir Dm, Lit CHR ''-'', Dir Dd, Lit CHR ''T'',
   Dir DH, Lit CHR '':'', Dir DM, Lit CHR '':'', Dir DS, Lit CHR ''Z'']"
  by (simp add: BACKUP_ID_FORMAT_def is_space_def)

lemma strptime_strftime:
  assumes v: "valid_datetime dt"
    and f: "f = PGBACKREST_BACKUP_ID_FORMAT \<or> f = BACKUP_ID_FORMAT"
    and s: "strftime dt f = Inr s"
    and y: "1000 \<le> year dt"
  shows "strptime s f = Inr dt"
proof -
  let ?items = "parse_format f"
  have sup: "supported ?items" and nb: "\<not> list_ex is_bad ?items"
    using f by (auto simp: parse_pg parse_bid supported_def)
  have s': "s = concat (map (render dt) ?items)"
    using s sup by (simp add: strftime_def Let_def)
  have m: "match_items ?items s =
      Some (map (\<lambda>d. (d, pad d (field_value d dt))) (directives ?items), [])"
    using match_items_render [OF v nb y, of "[]"] s' by simp
  have "foldl set_field default_datetime
          (map (\<lambda>d. (d, pad d (field_value d dt))) (directives ?items)) = dt"
    using f valid_bounds [OF v]
    by (auto simp: parse_pg parse_bid py_int_pad2 py_int_pad4)
  then show ?thesis
    using sup m v by (simp add: strptime_def Let_def)
qed

lemma strftime_total:
  "f = PGBACKREST_BACKUP_ID_FORMAT \<or> f = BACKUP_ID_FORMAT \<Longrightarrow> \<exists>s. strftime dt f = Inr s"
  by (auto simp: strftime_def Let_def parse_pg parse_bid supported_def)


section \<open>Stripping strings\<close>

lemma lstrip_hd: "lstrip_by p s \<noteq> [] \<Longrightarrow> \<not> p (hd (lstrip_by p s))"
  unfolding lstrip_by_def by (rule hd_dropWhile)

lemma rstrip_last: "rstrip_by p s \<noteq> [] \<Longrightarrow> \<not> p (last (rstrip_by p s))"
  unfolding rstrip_by_def by (simp add: last_rev hd_dropWhile)

lemma rstrip_keeps_hd:
  assumes "s \<noteq> []" "\<not> p (hd s)"
  shows "rstrip_by p s \<noteq> [] \<and> hd (rstrip_by p s) = hd s"
proof -
  obtain x xs where s: "s = x # xs" using assms(1) by (cases s) auto
  have "dropWhile p (rev xs @ [x]) = dropWhile p (rev xs) @ [x]"
    using assms(2) s by (simp add: dropWhile_append3)
  then show ?thesis using s by (simp add: rstrip_by_def)
qed

lemma strip_hd: "strip_by p s \<noteq> [] \<Longrightarrow> \<not> p (hd (strip_by p s))"
proof -
  assume a: "strip_by p s \<noteq> []"
  then have "lstrip_by p s \<noteq> []" by (auto simp: strip_by_def rstrip_by_def)
  then show ?thesis
    using rstrip_keeps_hd [of "lstrip_by p s" p] lstrip_hd [of p s] by (simp add: strip_by_def)
qed

lemma strip_last: "strip_by p s \<noteq> [] \<Longrightarrow> \<not> p (last (strip_by p s))"
  unfolding strip_by_def by (rule rstrip_last)

lemma strip_idem: "strip_by p (strip_by p s) = strip_by p s"
proof (cases "strip_by p s = []")
  case True
  have "strip_by p [] = []" by (simp add: strip_by_def rstrip_by_def lstrip_by_def)
  with True show ?thesis by simp
next
  case False
  then have "\<not> p (hd (strip_by p s))" by (rule strip_hd)
  then have l: "lstrip_by p (strip_by p s) = strip_by p s"
    using False by (cases "strip_by p s") (auto simp: lstrip_by_def)
  have "rstrip_by p (strip_by p s) = strip_by p s"
    by (simp add: strip_by_def rstrip_by_def)
  then show ?thesis using l by (simp add: strip_by_def)
qed

lemma strip_slash_ws [simp]:
  "strip_by is_space ''https://s3.amazonaws.com'' = ''https://s3.amazonaws.com''"
  "rstrip_by is_slash ''https://s3.amazonaws.com'' = ''https://s3.amazonaws.com''"
  by (simp_all add: strip_by_def rstrip_by_def lstrip_by_def is_space_def is_slash_def)

lemma setdefault_other: "k \<noteq> k' \<Longrightarrow> setdefault k' v d k = d k"
  by (simp add: setdefault_def split: option.splits)

lemma setdefault_same:
  "setdefault k v d k = (case d k of None \<Rightarrow> Some v | Some w \<Rightarrow> Some w)"
  by (simp add: setdefault_def split: option.splits)

lemma required_present:
  "filter (\<lambda>param. d param = None) required_parameters = [] \<longleftrightarrow>
     d ''bucket'' \<noteq> None \<and> d ''access-key'' \<noteq> None \<and> d ''secret-key'' \<noteq> None"
  by (auto simp: required_parameters_def)

lemmas string_ops = strip_by_def rstrip_by_def lstrip_by_def is_space_def is_slash_def

lemma lstrip_slash_Cons: "lstrip_by is_slash (CHR ''/'' # s) = lstrip_by is_slash s"
  by (simp add: lstrip_by_def is_slash_def)

lemma lstrip_slash_id: "s \<noteq> [] \<Longrightarrow> hd s \<noteq> CHR ''/'' \<Longrightarrow> lstrip_by is_slash s = s"
  by (cases s) (simp_all add: lstrip_by_def is_slash_def)

section \<open>The catalog as a set\<close>

lemma set_dict_set:
  "\<forall>p\<in>set d. snd p = v \<Longrightarrow> set (dict_set k v d) = insert (k, v) (set d)"
  by (induction d) (auto simp: prod_eq_iff)

lemma set_foldl_dict_set:
  "\<forall>p\<in>set d. snd p = v \<Longrightarrow> \<forall>p\<in>set items. snd p = v \<Longrightarrow>
     set (foldl (\<lambda>d (k, v). dict_set k v d) d items) = set d \<union> set items"
proof (induction items arbitrary: d)
  case Nil
  then show ?case by simp
next
  case (Cons i items)
  obtain k where i: "i = (k, v)" using Cons.prems(2) by (cases i) auto
  have "set (dict_set k v d) = insert (k, v) (set d)" using Cons.prems(1) by (rule set_dict_set)
  moreover from this have "\<forall>p\<in>set (dict_set k v d). snd p = v" using Cons.prems(1) by auto
  ultimately show ?case using Cons.IH [of "dict_set k v d"] Cons.prems(2) i by auto
qed

lemma set_ordered_dict: "\<forall>p\<in>set items. snd p = v \<Longrightarrow> set (ordered_dict items) = set items"
  using set_foldl_dict_set [of "[]" v items] by (simp add: ordered_dict_def)

lemma id_pairs_set:
  "id_pairs st bs = Inr ps \<Longrightarrow>
     set ps = {(k, st) | k. \<exists>b\<in>set bs. label_to_backup_id (label b) = Inr k}"
proof (induction bs arbitrary: ps)
  case Nil
  then show ?case by simp
next
  case (Cons b bs)
  then obtain i qs where i: "label_to_backup_id (label b) = Inr i" and qs: "id_pairs st bs = Inr qs"
    and ps: "ps = (i, st) # qs"
    by (auto split: sum.splits)
  show ?case using Cons.IH [OF qs] i ps by auto
qed

lemma id_pairs_filter:
  "id_pairs st bs = Inr ps \<Longrightarrow> \<exists>qs. id_pairs st (filter P bs) = Inr qs"
proof (induction bs arbitrary: ps)
  case Nil
  then show ?case by simp
next
  case (Cons b bs)
  then obtain i qs where i: "label_to_backup_id (label b) = Inr i" and qs: "id_pairs st bs = Inr qs"
    by (auto split: sum.splits)
  from Cons.IH [OF qs] obtain rs where "id_pairs st (filter P bs) = Inr rs" by blast
  then show ?case using i by simp
qed

lemma filter_shown_True: "filter (shown True) bs = bs"
  by (simp add: shown_def)

section \<open>The retry loop\<close>

lemma emit_fields [simp]:
  "trace (emit x c) = trace c @ [x]" "status (emit x c) = status c"
  "app_peer_data (emit x c) = app_peer_data c" "unit_peer_data (emit x c) = unit_peer_data c"
  "event (emit x c) = event c"
  by (simp_all add: emit_def)

declare retrying.simps [simp del]

lemma retrying_props:
  assumes "retrying e n c = (ok, c')" "n \<le> 5"
  shows "\<exists>new. trace c' = trace c @ new
      \<and> status c' = status c \<and> app_peer_data c' = app_peer_data c
      \<and> unit_peer_data c' = unit_peer_data c \<and> event c' = event c
      \<and> count_list new (ExecuteCommand (check_command e)) \<le> 6 - n
      \<and> (\<forall>d. Sleep d \<in> set new \<longrightarrow> d = 3)
      \<and> count_list new (Sleep 3) + 1 = count_list new (ExecuteCommand (check_command e))
      \<and> (\<forall>x\<in>set new. x = ReloadPatroniConfiguration \<or> x = Sleep 3
            \<or> x = ExecuteCommand (check_command e))
      \<and> (ok \<longleftrightarrow> (\<exists>k. n \<le> k \<and> k \<le> 5 \<and> fst (check_result e k) = 0))
      \<and> (\<not> ok \<longrightarrow> count_list new (ExecuteCommand (check_command e)) = 6 - n)"
  using assms
proof (induction e n c arbitrary: ok c' rule: retrying.induct)
  case (1 e n c)
  let ?c1 = "if member_started_at e n then emit ReloadPatroniConfiguration c else c"
  let ?c2 = "emit (ExecuteCommand (check_command e)) ?c1"
  let ?pre = "(if member_started_at e n then [ReloadPatroniConfiguration] else [])
                @ [ExecuteCommand (check_command e)]"
  have t2: "trace ?c2 = trace c @ ?pre" by simp
  have f2: "status ?c2 = status c" "app_peer_data ?c2 = app_peer_data c"
    "unit_peer_data ?c2 = unit_peer_data c" "event ?c2 = event c" by simp_all
  have cp: "count_list ?pre (ExecuteCommand (check_command e)) = 1"
    "count_list ?pre (Sleep 3) = 0" by simp_all
  show ?case
  proof (cases "fst (check_result e n) = 0")
    case True
    then have r: "ok" "c' = ?c2"
      using "1.prems"(1) by (simp_all add: retrying.simps [of e n c] Let_def)
    show ?thesis
      apply (rule exI [of _ ?pre])
      using True r "1.prems"(2) t2 f2 by auto
  next
    case False
    show ?thesis
    proof (cases "n \<ge> 5")
      case True
      then have n: "n = 5" using "1.prems"(2) by simp
      have r: "\<not> ok" "c' = ?c2"
        using "1.prems"(1) False True by (simp_all add: retrying.simps [of e n c] Let_def)
      have nok: "\<not> (\<exists>k. n \<le> k \<and> k \<le> 5 \<and> fst (check_result e k) = 0)"
        using False n by auto
      show ?thesis
        apply (rule exI [of _ ?pre])
        using r n nok t2 f2 by auto
    next
      case n5: False
      let ?c3 = "emit (Sleep 3) ?c2"
      have rec: "retrying e (Suc n) ?c3 = (ok, c')"
        using "1.prems"(1) False n5 by (simp add: retrying.simps [of e n c] Let_def)
      have "Suc n \<le> 5" using n5 by simp
      from "1.IH" [OF refl refl refl False n5 rec this]
      obtain new where new: "trace c' = trace ?c3 @ new"
        "status c' = status ?c3" "app_peer_data c' = app_peer_data ?c3"
        "unit_peer_data c' = unit_peer_data ?c3" "event c' = event ?c3"
        "count_list new (ExecuteCommand (check_command e)) \<le> 6 - Suc n"
        "\<forall>d. Sleep d \<in> set new \<longrightarrow> d = 3"
        "count_list new (Sleep 3) + 1 = count_list new (ExecuteCommand (check_command e))"
        "\<forall>x\<in>set new. x = ReloadPatroniConfiguration \<or> x = Sleep 3
            \<or> x = ExecuteCommand (check_command e)"
        "ok \<longleftrightarrow> (\<exists>k. Suc n \<le> k \<and> k \<le> 5 \<and> fst (check_result e k) = 0)"
        "\<not> ok \<longrightarrow> count_list new (ExecuteCommand (check_command e)) = 6 - Suc n"
        by blast
      have okn: "ok \<longleftrightarrow> (\<exists>k. n \<le> k \<and> k \<le> 5 \<and> fst (check_result e k) = 0)"
      proof -
        have "(\<exists>k. n \<le> k \<and> k \<le> 5 \<and> fst (check_result e k) = 0)
              \<longleftrightarrow> (\<exists>k. Suc n \<le> k \<and> k \<le> 5 \<and> fst (check_result e k) = 0)"
          using False by (metis Suc_leI le_neq_implies_less Suc_leD)
        then show ?thesis using new(10) by simp
      qed
      show ?thesis
        apply (rule exI [of _ "?pre @ [Sleep 3] @ new"])
        using new(1-9) new(11) okn n5 by auto
    qed
  qed
qed

section \<open>The TLS service and the stanza\<close>




lemma new_trace_append [simp]: "trace c' = trace c @ new \<Longrightarrow> new_trace c c' = new"
  by (simp add: new_trace_def)


section \<open>The upload of the log\<close>

lemma fallback_label: "\<exists>s. strftime dt ''%Y%m%d-%H%M%SF'' = Inr s"
  by (simp add: strftime_def supported_def Let_def is_space_def)

lemma keys_Nil: "keys d = [] \<longleftrightarrow> d = []"
  by (simp add: keys_def)

lemma upload_result:
  assumes "s3_parameters ''bucket'' = Some bucket_name" "get_str s3_parameters ''path'' = Inr path"
  shows "upload_content_to_s3 e content s3_path s3_parameters c =
     (if \<not> client_ready e s3_parameters then (Inr False, c)
      else (Inr (upload_ok e (upload_key path s3_path)),
            emit (UploadFile bucket_name (upload_key path s3_path)) c))"
  using assms by (simp add: upload_content_to_s3_def Let_def)

section \<open>The restore after its checks\<close>

lemma catalog_keys:
  assumes "catalog e sf = Inr d"
  shows "set (keys d)
    = {k. \<exists>b\<in>set (entries e). shown sf b \<and> label_to_backup_id (label b) = Inr k}"
proof -
  obtain rc out errs where ir: "info_result e = (rc, out, errs)"
    by (cases "info_result e") auto
  have rc: "rc = 0" using assms ir by (auto simp: catalog_def split: if_splits)
  show ?thesis
  proof (cases out)
    case Nil
    then show ?thesis using assms ir rc by (simp add: catalog_def entries_def keys_def)
  next
    case (Cons r rest)
    then have en: "entries e = backup r" using ir by (simp add: entries_def)
    from assms ir rc Cons obtain ps where
      ps: "id_pairs (name r) (filter (shown sf) (backup r)) = Inr ps" and d: "d = ordered_dict ps"
      by (auto simp: catalog_def split: sum.splits)
    have sps: "set ps = {(k, name r) | k. \<exists>b\<in>set (filter (shown sf) (backup r)).
                        label_to_backup_id (label b) = Inr k}"
      using ps by (rule id_pairs_set)
    have a: "set (ordered_dict ps) = set ps"
      using sps by (intro set_ordered_dict [of _ "name r"]) auto
    show ?thesis unfolding keys_def set_map d a sps en by force
  qed
qed

lemma pre_restore_cases:
  "(\<exists>x. pre_restore_checks e param c = (Inl x, c) \<and> are_backup_settings_ok e = Inl x)
   \<or> (\<exists>m. pre_restore_checks e param c = (Inr False, c\<lparr>event := Fail m\<rparr>))
   \<or> pre_restore_checks e param c = (Inr True, c)"
  by (auto simp: pre_restore_checks_def split: sum.splits)

lemma restore_validated:
  assumes "pre_restore_checks e (Some backup_id) c = (Inr True, c)"
    and "catalog e False = Inr backups"
    and "backup_id \<in> set (keys backups)"
    and "stop_patroni_ok e"
    and "data_path_is_dir e \<longrightarrow> rmtree_ok e"
  shows "backup_id_to_label backup_id = Inl x \<Longrightarrow>
           fst (on_restore_action e (Some backup_id) c) = Some x
           \<and> app_peer_data (snd (on_restore_action e (Some backup_id) c)) = app_peer_data c"
    and "backup_id_to_label backup_id = Inr lbl \<Longrightarrow>
           app_peer_data (snd (on_restore_action e (Some backup_id) c))
             = (app_peer_data c)(''restoring-backup'' \<mapsto> lbl,
                                 ''restore-stanza'' \<mapsto> lookup backups backup_id)"
proof -
  show "fst (on_restore_action e (Some backup_id) c) = Some x
           \<and> app_peer_data (snd (on_restore_action e (Some backup_id) c)) = app_peer_data c"
    if "backup_id_to_label backup_id = Inl x"
    using assms that
    by (cases "data_path_is_dir e")
      (simp_all add: on_restore_action_def list_backups_def empty_data_files_def Let_def)
  show "app_peer_data (snd (on_restore_action e (Some backup_id) c))
             = (app_peer_data c)(''restoring-backup'' \<mapsto> lbl,
                                 ''restore-stanza'' \<mapsto> lookup backups backup_id)"
    if "backup_id_to_label backup_id = Inr lbl"
    using assms that
    by (cases "data_path_is_dir e"; cases "remove_result e")
      (auto simp add: on_restore_action_def list_backups_def empty_data_files_def Let_def
        split: prod.splits)
qed

section \<open>The sample inputs evaluated\<close>

lemma catalog0:
  "catalog env0 True = Inr [(''2023-01-05T12:34:56Z'', ''dev.postgresql''),
                            (''2023-01-06T01:02:03Z'', ''dev.postgresql'')]"
  "catalog env0 False = Inr [(''2023-01-05T12:34:56Z'', ''dev.postgresql'')]"
  by code_simp+

lemma settings0: "are_backup_settings_ok env0 = Inr (True, None)"
  by (simp add: are_backup_settings_ok_def retrieve_s3_parameters_def env0_def s3_info0_def
      required_parameters_def setdefault_def strip_all_def update_str_def Let_def)


lemma env0_sel:
  "is_leader env0" "snap_present env0" "is_tls_enabled env0" "peer_members_ips env0 = [''10.0.0.2'']"
  "is_primary env0" "stanza_create_result env0 = (0, [], [])"
  "PGBACKREST_CONF_PATH env0 = ''/etc/pgbackrest''" "stop_patroni_ok env0" "rmtree_ok env0"
  "data_path_is_dir env0" "planned_units env0 = 1" "client_ok env0"
  "model_name env0 = ''dev''" "cluster_name env0 = ''postgresql''"
  "POSTGRESQL_DATA_PATH env0 = ''/var/lib/postgresql''"
  "remove_result env0 = Some (0, [], [])" "backup_result env0 = (0, [], [])"
  by (simp_all add: env0_def)

lemma charm0_sel:
  "status charm0 = ActiveStatus" "trace charm0 = []" "event charm0 = NoOutcome"
  "app_peer_data charm0 = [''stanza'' \<mapsto> ''dev.postgresql'']" "unit_peer_data charm0 = Map.empty"
  by (simp_all add: charm0_def)




lemma s3_ready_sel:
  "s3_ready ''bucket'' = Some (PStr ''pg-backups'')" "get_str s3_ready ''path'' = Inr ''/prod''"
  "client_ready e s3_ready = client_ok e"
  by (simp_all add: s3_ready_def get_str_def client_ready_def)

lemma env_upload_fails_sel:
  "catalog env_upload_fails sf = catalog env0 sf" "backup_result env_upload_fails = (0, [], [])"
  "client_ok env_upload_fails" "\<not> upload_ok env_upload_fails k"
  by (simp_all add: env_upload_fails_def env0_def catalog_def)

lemma env_backup_fails_sel:
  "backup_result env_backup_fails = (1, ''P00 ERROR'', ''unable to back up'')"
  "backup_result (env_backup_fails\<lparr>upload_ok := f\<rparr>) = (1, ''P00 ERROR'', ''unable to back up'')"
  by (simp_all add: env_backup_fails_def)

lemma env_listing_fails_sel:
  "info_result env_listing_fails = (1, [], ''unable to open repository'')"
  "planned_units env_listing_fails = 1"
  "is_leader env_listing_fails"
  "are_backup_settings_ok env_listing_fails = Inr (True, None)"
proof -
  show "info_result env_listing_fails = (1, [], ''unable to open repository'')"
    "planned_units env_listing_fails = 1" "is_leader env_listing_fails"
    by (simp_all add: env_listing_fails_def env0_def)
  have "are_backup_settings_ok env_listing_fails = are_backup_settings_ok env0"
    by (simp add: are_backup_settings_ok_def retrieve_s3_parameters_def env_listing_fails_def)
  then show "are_backup_settings_ok env_listing_fails = Inr (True, None)"
    by (simp only: settings0)
qed

lemma env_incremental_sel:
  "planned_units env_incremental = 1" "is_leader env_incremental"
  "stop_patroni_ok env_incremental" "rmtree_ok env_incremental"
  "entries env_incremental = [\<lparr>label = ''20230107-101112I'', err = PBool False\<rparr>]"
  "are_backup_settings_ok env_incremental = Inr (True, None)"
proof -
  show "planned_units env_incremental = 1" "is_leader env_incremental"
    "stop_patroni_ok env_incremental" "rmtree_ok env_incremental"
    "entries env_incremental = [\<lparr>label = ''20230107-101112I'', err = PBool False\<rparr>]"
    by (simp_all add: env_incremental_def env0_def entries_def)
  have "are_backup_settings_ok env_incremental = are_backup_settings_ok env0"
    by (simp add: are_backup_settings_ok_def retrieve_s3_parameters_def env_incremental_def)
  then show "are_backup_settings_ok env_incremental = Inr (True, None)"
    by (simp only: settings0)
qed

lemma env_old_sel:
  "planned_units env_old = 1" "is_leader env_old"
  "stop_patroni_ok env_old" "rmtree_ok env_old"
  "are_backup_settings_ok env_old = Inr (True, None)"
proof -
  show "planned_units env_old = 1" "is_leader env_old"
    "stop_patroni_ok env_old" "rmtree_ok env_old"
    by (simp_all add: env_old_def env0_def)
  have "are_backup_settings_ok env_old = are_backup_settings_ok env0"
    by (simp add: are_backup_settings_ok_def retrieve_s3_parameters_def env_old_def)
  then show "are_backup_settings_ok env_old = Inr (True, None)"
    by (simp only: settings0)
qed

lemma catalog_samples:
  "catalog env_incremental False = Inr [(''2023-01-07T10:11:12Z'', ''dev.postgresql'')]"
  "catalog env_old False = Inr [(''999-01-05T12:34:56Z'', ''dev.postgresql'')]"
  by code_simp+

lemma label_samples:
  "backup_id_to_label ''2023-01-07T10:11:12Z'' = Inr ''20230107-101112F''"
  "backup_id_to_label ''999-01-05T12:34:56Z'' = Inl ValueError"
  "strptime (butlast ''20230107-101112I'') PGBACKREST_BACKUP_ID_FORMAT
     = Inr \<lparr>year = 2023, month = 1, day = 7, hour = 10, minute = 11, second = 12\<rparr>"
  "strftime \<lparr>year = 2023, month = 1, day = 7, hour = 10, minute = 11, second = 12\<rparr>
     BACKUP_ID_FORMAT = Inr ''2023-01-07T10:11:12Z''"
  "strftime \<lparr>year = 2023, month = 1, day = 7, hour = 10, minute = 11, second = 12\<rparr>
     PGBACKREST_BACKUP_ID_FORMAT = Inr ''20230107-101112''"
  by code_simp+


section \<open>Claims\<close>

text \<open>
  C6, as amended. A backup-id the catalog listing produces from a label whose year has
  four digits (1000 to 9999) converts back to a label of the restore directive, and that
  label converts to the same backup-id again: the two timestamp formats round-trip there.
\<close>

theorem backup_id_round_trip_four_digit_year:
  assumes "label_to_backup_id lbl = Inr backup_id"
    and "strptime (butlast lbl) PGBACKREST_BACKUP_ID_FORMAT = Inr dt"
    and "1000 \<le> year dt"
  shows "\<exists>lbl'. backup_id_to_label backup_id = Inr lbl' \<and> label_to_backup_id lbl' = Inr backup_id"
proof -
  from assms(1,2) have bid: "strftime dt BACKUP_ID_FORMAT = Inr backup_id"
    by (simp add: label_to_backup_id_def)
  have v: "valid_datetime dt" using assms(2) by (rule strptime_valid)
  have bk: "strptime backup_id BACKUP_ID_FORMAT = Inr dt"
    using strptime_strftime [OF v _ bid assms(3)] by simp
  obtain s where s: "strftime dt PGBACKREST_BACKUP_ID_FORMAT = Inr s"
    using strftime_total [of PGBACKREST_BACKUP_ID_FORMAT dt] by auto
  have again: "strptime s PGBACKREST_BACKUP_ID_FORMAT = Inr dt"
    using strptime_strftime [OF v _ s assms(3)] by simp
  have "backup_id_to_label backup_id = Inr (s @ ''F'')"
    using bk s by (simp add: backup_id_to_label_def)
  moreover have "label_to_backup_id (s @ ''F'') = Inr backup_id"
    using again bid by (simp add: label_to_backup_id_def)
  ultimately show ?thesis by blast
qed

theorem backup_id_round_trip_four_digit_year_witness:
  "label_to_backup_id ''20230105-123456F'' = Inr ''2023-01-05T12:34:56Z''
   \<and> (\<exists>lbl'. backup_id_to_label ''2023-01-05T12:34:56Z'' = Inr lbl'
          \<and> label_to_backup_id lbl' = Inr ''2023-01-05T12:34:56Z'')"
proof -
  have h: "label_to_backup_id ''20230105-123456F'' = Inr ''2023-01-05T12:34:56Z''"
    by code_simp
  have p: "strptime (butlast ''20230105-123456F'') PGBACKREST_BACKUP_ID_FORMAT
      = Inr \<lparr>year = 2023, month = 1, day = 5, hour = 12, minute = 34, second = 56\<rparr>"
    by code_simp
  show ?thesis using h backup_id_round_trip_four_digit_year [OF h p] by simp
qed

text \<open>
  C6 as stated fails: the label of the year 999 is listed as a backup-id whose year has
  three digits, and the conversion back refuses it, since \<^verbatim>\<open>%Y\<close> reads four digits.
\<close>

theorem backup_id_round_trip_counterexample:
  "label_to_backup_id ''09990105-123456F'' = Inr ''999-01-05T12:34:56Z''
   \<and> backup_id_to_label ''999-01-05T12:34:56Z'' = Inl ValueError"
  by code_simp

text \<open>
  C5. The eligibility predicate checks in this order and reports the first failure: a
  blocked unit; a primary with more than one unit planned and TLS enabled; a replica
  without TLS; a database process that is not started; no stanza in the application peer
  data; and otherwise the answer is that of the S3-settings check. In particular a primary
  with two units and TLS, and a replica without TLS, are denied, and a primary with one
  unit and no TLS passes the role checks.
\<close>

theorem can_unit_perform_backup_order:
  "(is_blocked c \<longrightarrow>
      can_unit_perform_backup e c = Inr (False, Some ''Unit is in a blocking state''))
    \<and> (\<not> is_blocked c \<and> unit_name e = get_primary e \<and> planned_units e > 1
         \<and> unit_peer_data c ''tls'' \<noteq> None \<longrightarrow>
      can_unit_perform_backup e c
        = Inr (False, Some ''Unit cannot perform backups as it is the cluster primary''))
    \<and> (\<not> is_blocked c \<and> unit_name e \<noteq> get_primary e \<and> unit_peer_data c ''tls'' = None \<longrightarrow>
      can_unit_perform_backup e c
        = Inr (False, Some ''Unit cannot perform backups as TLS is not enabled''))
    \<and> (\<not> is_blocked c \<and> role_allowed e c \<and> \<not> member_started e \<longrightarrow>
      can_unit_perform_backup e c
        = Inr (False, Some (''Unit cannot perform backups as it'' @ [apostrophe]
                             @ ''s not in running state'')))
    \<and> (\<not> is_blocked c \<and> role_allowed e c \<and> member_started e
         \<and> app_peer_data c ''stanza'' = None \<longrightarrow>
      can_unit_perform_backup e c = Inr (False, Some ''Stanza was not initialised''))
    \<and> (\<not> is_blocked c \<and> role_allowed e c \<and> member_started e
         \<and> app_peer_data c ''stanza'' \<noteq> None \<longrightarrow>
      can_unit_perform_backup e c = are_backup_settings_ok e)
    \<and> (unit_name e = get_primary e \<and> planned_units e = 2 \<and> unit_peer_data c ''tls'' \<noteq> None \<longrightarrow>
      (\<exists>m. can_unit_perform_backup e c = Inr (False, Some m)))
    \<and> (unit_name e \<noteq> get_primary e \<and> unit_peer_data c ''tls'' = None \<longrightarrow>
      (\<exists>m. can_unit_perform_backup e c = Inr (False, Some m)))
    \<and> (unit_name e = get_primary e \<and> planned_units e = 1 \<and> unit_peer_data c ''tls'' = None \<longrightarrow>
      role_allowed e c)"
  by (auto simp: can_unit_perform_backup_def role_allowed_def Let_def)

theorem can_unit_perform_backup_order_witness:
  "can_unit_perform_backup env0 (charm0\<lparr>status := BlockedStatus ''other''\<rparr>)
      = Inr (False, Some ''Unit is in a blocking state'')
   \<and> can_unit_perform_backup (env0\<lparr>planned_units := 2\<rparr>)
        (charm0\<lparr>unit_peer_data := [''tls'' \<mapsto> ''enabled'']\<rparr>)
      = Inr (False, Some ''Unit cannot perform backups as it is the cluster primary'')
   \<and> can_unit_perform_backup (env0\<lparr>get_primary := ''postgresql/1''\<rparr>) charm0
      = Inr (False, Some ''Unit cannot perform backups as TLS is not enabled'')
   \<and> can_unit_perform_backup (env0\<lparr>member_started := False\<rparr>) charm0
      = Inr (False, Some (''Unit cannot perform backups as it'' @ [apostrophe]
                                   @ ''s not in running state''))
   \<and> can_unit_perform_backup env0 (charm0\<lparr>app_peer_data := Map.empty\<rparr>)
      = Inr (False, Some ''Stanza was not initialised'')
   \<and> can_unit_perform_backup env0 charm0 = Inr (True, None)"
  using can_unit_perform_backup_order [of "charm0\<lparr>status := BlockedStatus ''other''\<rparr>" env0]
    can_unit_perform_backup_order [of "charm0\<lparr>unit_peer_data := [''tls'' \<mapsto> ''enabled'']\<rparr>"
      "env0\<lparr>planned_units := 2\<rparr>"]
    can_unit_perform_backup_order [of charm0 "env0\<lparr>get_primary := ''postgresql/1''\<rparr>"]
    can_unit_perform_backup_order [of charm0 "env0\<lparr>member_started := False\<rparr>"]
    can_unit_perform_backup_order [of "charm0\<lparr>app_peer_data := Map.empty\<rparr>" env0]
    can_unit_perform_backup_order [of charm0 env0]
    settings0
  by (simp add: env0_def charm0_def role_allowed_def)


text \<open>
  C8, as amended. When a required key (bucket, access-key, secret-key) is absent, the
  result is the empty parameter set with the absent required keys. Otherwise every string
  value is first stripped of white space; then the endpoint (https://s3.amazonaws.com by
  default) loses its trailing slashes, the path becomes a slash followed by the path
  without leading and trailing slashes, and the bucket loses its leading and trailing
  slashes. So the endpoint and the bucket do not end with a slash, the path starts with a
  slash and does not end with one unless it is the single slash, and every other value is
  the value given (or its default: no region, the uri style host), stripped of white space
  when it is a string, and so free of white space at both ends.
\<close>

theorem retrieve_s3_parameters_normalised:
  "(filter (\<lambda>param. s3_connection_info e param = None) required_parameters \<noteq> [] \<longrightarrow>
      retrieve_s3_parameters e
        = Inr (Map.empty, filter (\<lambda>param. s3_connection_info e param = None) required_parameters))
   \<and> (filter (\<lambda>param. s3_connection_info e param = None) required_parameters = []
        \<and> str_or (s3_connection_info e) ''endpoint'' ''https://s3.amazonaws.com'' = Some ep
        \<and> str_or (s3_connection_info e) ''path'' [] = Some pa
        \<and> s3_connection_info e ''bucket'' = Some (PStr b) \<longrightarrow>
      (\<exists>ps. retrieve_s3_parameters e = Inr (ps, [])
         \<and> ps ''endpoint'' = Some (PStr (rstrip_by is_slash (strip_by is_space ep)))
         \<and> ps ''path'' = Some (PStr (CHR ''/'' # strip_by is_slash (strip_by is_space pa)))
         \<and> ps ''bucket'' = Some (PStr (strip_by is_slash (strip_by is_space b)))
         \<and> (s3_connection_info e ''endpoint'' = None \<longrightarrow>
               ps ''endpoint'' = Some (PStr ''https://s3.amazonaws.com''))
         \<and> (\<forall>k v. k \<notin> {''endpoint'', ''path'', ''bucket''} \<and> ps k = Some (PStr v) \<longrightarrow>
               strip_by is_space v = v)
         \<and> (\<forall>k. k \<notin> {''endpoint'', ''path'', ''bucket'', ''region'', ''s3-uri-style''} \<longrightarrow>
               ps k = map_option strip_value (s3_connection_info e k))
         \<and> ps ''region'' = (case s3_connection_info e ''region'' of
                               None \<Rightarrow> Some PNone | Some v \<Rightarrow> Some (strip_value v))
         \<and> ps ''s3-uri-style'' = (case s3_connection_info e ''s3-uri-style'' of
                               None \<Rightarrow> Some (PStr ''host'') | Some v \<Rightarrow> Some (strip_value v))
         \<and> (\<forall>v. ps ''endpoint'' = Some (PStr v) \<and> v \<noteq> [] \<longrightarrow> last v \<noteq> CHR ''/'')
         \<and> (\<forall>v. ps ''path'' = Some (PStr v) \<longrightarrow>
               v \<noteq> [] \<and> hd v = CHR ''/'' \<and> (v = ''/'' \<or> last v \<noteq> CHR ''/''))
         \<and> (\<forall>v. ps ''bucket'' = Some (PStr v) \<and> v \<noteq> [] \<longrightarrow>
               hd v \<noteq> CHR ''/'' \<and> last v \<noteq> CHR ''/'')))"
proof (intro conjI impI)
  assume "filter (\<lambda>param. s3_connection_info e param = None) required_parameters \<noteq> []"
  then show "retrieve_s3_parameters e
        = Inr (Map.empty, filter (\<lambda>param. s3_connection_info e param = None) required_parameters)"
    by (simp add: retrieve_s3_parameters_def Let_def)
next
  let ?d = "s3_connection_info e"
  assume a: "filter (\<lambda>param. ?d param = None) required_parameters = []
        \<and> str_or ?d ''endpoint'' ''https://s3.amazonaws.com'' = Some ep
        \<and> str_or ?d ''path'' [] = Some pa
        \<and> ?d ''bucket'' = Some (PStr b)"
  define p4 where "p4 = setdefault ''s3-uri-style'' (PStr ''host'')
      (setdefault ''path'' (PStr []) (setdefault ''region'' PNone
        (setdefault ''endpoint'' (PStr ''https://s3.amazonaws.com'') ?d)))"
  define ps where "ps = ((strip_all p4)
      (''endpoint'' \<mapsto> PStr (rstrip_by is_slash (strip_by is_space ep)),
       ''path'' \<mapsto> PStr (CHR ''/'' # strip_by is_slash (strip_by is_space pa)),
       ''bucket'' \<mapsto> PStr (strip_by is_slash (strip_by is_space b))))"
  have e4: "p4 ''endpoint'' = Some (PStr ep)" and pa4: "p4 ''path'' = Some (PStr pa)"
    and b4: "p4 ''bucket'' = Some (PStr b)"
    using a by (auto simp: p4_def setdefault_def str_or_def split: option.splits pyval.splits)
  have r: "retrieve_s3_parameters e = Inr (ps, [])"
    using a e4 pa4 b4 unfolding retrieve_s3_parameters_def Let_def p4_def [symmetric] ps_def
    by (simp add: update_str_def strip_all_def)
  have other: "\<And>k v. k \<notin> {''endpoint'', ''path'', ''bucket''} \<Longrightarrow> ps k = Some (PStr v)
      \<Longrightarrow> strip_by is_space v = v"
  proof -
    fix k v assume k: "k \<notin> {''endpoint'', ''path'', ''bucket''}" and v: "ps k = Some (PStr v)"
    then have "map_option strip_value (p4 k) = Some (PStr v)"
      by (simp add: ps_def strip_all_def)
    then obtain w where "v = strip_by is_space w"
      by (cases "p4 k") (auto elim: strip_value.elims)
    then show "strip_by is_space v = v" by (simp add: strip_idem)
  qed
  have slash: "\<not> is_slash x \<longleftrightarrow> x \<noteq> CHR ''/''" for x by (simp add: is_slash_def)
  have ep_last: "\<And>v. v = rstrip_by is_slash (strip_by is_space ep) \<Longrightarrow> v \<noteq> [] \<Longrightarrow> last v \<noteq> CHR ''/''"
    using rstrip_last [of is_slash] by (simp add: slash)
  have b_ends: "\<And>v. v = strip_by is_slash (strip_by is_space b) \<Longrightarrow> v \<noteq> []
      \<Longrightarrow> hd v \<noteq> CHR ''/'' \<and> last v \<noteq> CHR ''/''"
    using strip_hd [of is_slash] strip_last [of is_slash] by (simp add: slash)
  have pa_ends: "strip_by is_slash (strip_by is_space pa) \<noteq> []
      \<Longrightarrow> last (strip_by is_slash (strip_by is_space pa)) \<noteq> CHR ''/''"
    using strip_last [of is_slash] by (simp add: slash)
  have dflt: "?d ''endpoint'' = None \<Longrightarrow> ep = ''https://s3.amazonaws.com''"
    using a by (simp add: str_or_def)
  show "\<exists>ps. retrieve_s3_parameters e = Inr (ps, [])
         \<and> ps ''endpoint'' = Some (PStr (rstrip_by is_slash (strip_by is_space ep)))
         \<and> ps ''path'' = Some (PStr (CHR ''/'' # strip_by is_slash (strip_by is_space pa)))
         \<and> ps ''bucket'' = Some (PStr (strip_by is_slash (strip_by is_space b)))
         \<and> (?d ''endpoint'' = None \<longrightarrow>
               ps ''endpoint'' = Some (PStr ''https://s3.amazonaws.com''))
         \<and> (\<forall>k v. k \<notin> {''endpoint'', ''path'', ''bucket''} \<and> ps k = Some (PStr v) \<longrightarrow>
               strip_by is_space v = v)
         \<and> (\<forall>k. k \<notin> {''endpoint'', ''path'', ''bucket'', ''region'', ''s3-uri-style''} \<longrightarrow>
               ps k = map_option strip_value (?d k))
         \<and> ps ''region'' = (case ?d ''region'' of
                               None \<Rightarrow> Some PNone | Some v \<Rightarrow> Some (strip_value v))
         \<and> ps ''s3-uri-style'' = (case ?d ''s3-uri-style'' of
                               None \<Rightarrow> Some (PStr ''host'') | Some v \<Rightarrow> Some (strip_value v))
         \<and> (\<forall>v. ps ''endpoint'' = Some (PStr v) \<and> v \<noteq> [] \<longrightarrow> last v \<noteq> CHR ''/'')
         \<and> (\<forall>v. ps ''path'' = Some (PStr v) \<longrightarrow>
               v \<noteq> [] \<and> hd v = CHR ''/'' \<and> (v = ''/'' \<or> last v \<noteq> CHR ''/''))
         \<and> (\<forall>v. ps ''bucket'' = Some (PStr v) \<and> v \<noteq> [] \<longrightarrow>
               hd v \<noteq> CHR ''/'' \<and> last v \<noteq> CHR ''/'')"
  proof (rule exI [of _ ps], intro conjI)
    show "retrieve_s3_parameters e = Inr (ps, [])" by (rule r)
    show "ps ''endpoint'' = Some (PStr (rstrip_by is_slash (strip_by is_space ep)))"
      by (simp add: ps_def)
    show "ps ''path'' = Some (PStr (CHR ''/'' # strip_by is_slash (strip_by is_space pa)))"
      by (simp add: ps_def)
    show "ps ''bucket'' = Some (PStr (strip_by is_slash (strip_by is_space b)))"
      by (simp add: ps_def)
    show "?d ''endpoint'' = None \<longrightarrow> ps ''endpoint'' = Some (PStr ''https://s3.amazonaws.com'')"
      using dflt by (simp add: ps_def)
    show "\<forall>k v. k \<notin> {''endpoint'', ''path'', ''bucket''} \<and> ps k = Some (PStr v) \<longrightarrow>
               strip_by is_space v = v"
      using other by blast
    show "\<forall>k. k \<notin> {''endpoint'', ''path'', ''bucket'', ''region'', ''s3-uri-style''} \<longrightarrow>
               ps k = map_option strip_value (?d k)"
    proof (intro allI impI)
      fix k :: string
      assume "k \<notin> {''endpoint'', ''path'', ''bucket'', ''region'', ''s3-uri-style''}"
      then have n: "k \<noteq> ''endpoint''" "k \<noteq> ''path''" "k \<noteq> ''bucket''" "k \<noteq> ''region''"
        "k \<noteq> ''s3-uri-style''" by simp_all
      have "p4 k = ?d k" unfolding p4_def using n by (simp add: setdefault_other)
      moreover have "ps k = map_option strip_value (p4 k)"
        unfolding ps_def strip_all_def using n(1-3) by simp
      ultimately show "ps k = map_option strip_value (?d k)" by simp
    qed
    have reg: "p4 ''region'' = (case ?d ''region'' of None \<Rightarrow> Some PNone | Some v \<Rightarrow> Some v)"
      unfolding p4_def by (simp add: setdefault_other setdefault_same)
    have psr: "ps ''region'' = map_option strip_value (p4 ''region'')"
      unfolding ps_def strip_all_def by simp
    show "ps ''region'' = (case ?d ''region'' of
                               None \<Rightarrow> Some PNone | Some v \<Rightarrow> Some (strip_value v))"
      unfolding psr reg by (cases "?d ''region''") simp_all
    have sty: "p4 ''s3-uri-style'' = (case ?d ''s3-uri-style'' of
                  None \<Rightarrow> Some (PStr ''host'') | Some v \<Rightarrow> Some v)"
      unfolding p4_def by (simp add: setdefault_other setdefault_same)
    have pss: "ps ''s3-uri-style'' = map_option strip_value (p4 ''s3-uri-style'')"
      unfolding ps_def strip_all_def by simp
    have host: "strip_by is_space ''host'' = ''host''" by (simp add: string_ops)
    show "ps ''s3-uri-style'' = (case ?d ''s3-uri-style'' of
                               None \<Rightarrow> Some (PStr ''host'') | Some v \<Rightarrow> Some (strip_value v))"
      unfolding pss sty by (cases "?d ''s3-uri-style''") (simp_all add: host)
    show "\<forall>v. ps ''endpoint'' = Some (PStr v) \<and> v \<noteq> [] \<longrightarrow> last v \<noteq> CHR ''/''"
      using ep_last by (simp add: ps_def)
    show "\<forall>v. ps ''path'' = Some (PStr v) \<longrightarrow>
               v \<noteq> [] \<and> hd v = CHR ''/'' \<and> (v = ''/'' \<or> last v \<noteq> CHR ''/'')"
      using pa_ends by (auto simp: ps_def)
    show "\<forall>v. ps ''bucket'' = Some (PStr v) \<and> v \<noteq> [] \<longrightarrow>
               hd v \<noteq> CHR ''/'' \<and> last v \<noteq> CHR ''/''"
      using b_ends by (simp add: ps_def)
  qed
qed

theorem retrieve_s3_parameters_normalised_witness:
  "retrieve_s3_parameters (env0\<lparr>s3_connection_info := [''bucket'' \<mapsto> PStr ''pg-backups'']\<rparr>)
     = Inr (Map.empty, [''access-key'', ''secret-key''])
   \<and> (\<exists>ps. retrieve_s3_parameters env0 = Inr (ps, [])
         \<and> ps ''endpoint'' = Some (PStr ''https://s3.amazonaws.com'')
         \<and> ps ''path'' = Some (PStr ''/prod'')
         \<and> ps ''bucket'' = Some (PStr ''pg-backups''))"
proof -
  have m: "filter (\<lambda>param. s3_connection_info
      (env0\<lparr>s3_connection_info := [''bucket'' \<mapsto> PStr ''pg-backups'']\<rparr>) param = None)
      required_parameters = [''access-key'', ''secret-key'']"
    by (simp add: required_parameters_def)
  have h: "filter (\<lambda>param. s3_connection_info env0 param = None) required_parameters = []
        \<and> str_or (s3_connection_info env0) ''endpoint'' ''https://s3.amazonaws.com''
            = Some ''https://s3.amazonaws.com''
        \<and> str_or (s3_connection_info env0) ''path'' [] = Some ''/prod/''
        \<and> s3_connection_info env0 ''bucket'' = Some (PStr ''pg-backups'')"
    by (simp add: env0_def s3_info0_def required_parameters_def str_or_def)
  have s: "strip_by is_slash (strip_by is_space ''/prod/'') = ''prod''"
    "strip_by is_slash (strip_by is_space ''pg-backups'') = ''pg-backups''"
    by (simp_all add: string_ops)
  have ne: "[''access-key'', ''secret-key''] \<noteq> ([] :: string list)" by simp
  note absent = retrieve_s3_parameters_normalised
    [of "env0\<lparr>s3_connection_info := [''bucket'' \<mapsto> PStr ''pg-backups'']\<rparr>",
     THEN conjunct1, unfolded m, THEN mp, OF ne]
  have 1: "retrieve_s3_parameters (env0\<lparr>s3_connection_info := [''bucket'' \<mapsto> PStr ''pg-backups'']\<rparr>)
     = Inr (Map.empty, [''access-key'', ''secret-key''])"
    by (rule absent)
  note present = retrieve_s3_parameters_normalised
    [of env0 "''https://s3.amazonaws.com''" "''/prod/''" "''pg-backups''",
     THEN conjunct2, THEN mp, OF h]
  from present obtain ps where "retrieve_s3_parameters env0 = Inr (ps, [])"
    "ps ''endpoint'' = Some (PStr (rstrip_by is_slash (strip_by is_space ''https://s3.amazonaws.com'')))"
    "ps ''path'' = Some (PStr (CHR ''/'' # strip_by is_slash (strip_by is_space ''/prod/'')))"
    "ps ''bucket'' = Some (PStr (strip_by is_slash (strip_by is_space ''pg-backups'')))"
    by (elim exE conjE) (rule that, assumption+)
  then have "\<exists>ps. retrieve_s3_parameters env0 = Inr (ps, [])
         \<and> ps ''endpoint'' = Some (PStr ''https://s3.amazonaws.com'')
         \<and> ps ''path'' = Some (PStr ''/prod'')
         \<and> ps ''bucket'' = Some (PStr ''pg-backups'')"
    using s by auto
  with 1 show ?thesis by simp
qed


text \<open>
  C8 as stated fails: for the endpoint \<^verbatim>\<open>http://host /\<close> and no path, the endpoint
  returned ends with a space, so it is not trimmed, and the path returned is the single
  slash, which ends with a slash.
\<close>

theorem retrieve_s3_parameters_counterexample:
  "(case retrieve_s3_parameters env_slash of
      Inr (ps, missing) \<Rightarrow>
        missing = [] \<and> ps ''endpoint'' = Some (PStr ''http://host '')
        \<and> ps ''path'' = Some (PStr ''/'')
    | Inl _ \<Rightarrow> False)
   \<and> strip_by is_space ''http://host '' \<noteq> ''http://host ''
   \<and> last ''/'' = CHR ''/''"
  by (simp add: retrieve_s3_parameters_def env_slash_def env0_def required_parameters_def
      setdefault_def strip_all_def update_str_def Let_def string_ops)


text \<open>
  C10. When the path given to the upload routine begins with the S3 path prefix, which
  starts with a slash, the second join inside the routine returns the given path, and the
  object key is that path without its leading slashes. For the paths the callers build,
  the join of the normalised prefix with a relative path, the key is the built path without
  its first character: the prefix occurs once.
\<close>

theorem upload_key_of_prefixed_path:
  "(path \<noteq> [] \<and> hd path = CHR ''/'' \<and> take (length path) s3_path = path \<longrightarrow>
      path_join path s3_path = s3_path
      \<and> upload_key path s3_path = lstrip_by is_slash s3_path)
   \<and> (path = CHR ''/'' # strip_by is_slash x \<and> rel \<noteq> [] \<and> hd rel \<noteq> CHR ''/'' \<longrightarrow>
      take (length path) (path_join path rel) = path
      \<and> upload_key path (path_join path rel) = tl (path_join path rel)
      \<and> upload_key path (path_join path rel)
          = (if strip_by is_slash x = [] then rel else strip_by is_slash x @ ''/'' @ rel))"
proof (intro conjI impI)
  assume a: "path \<noteq> [] \<and> hd path = CHR ''/'' \<and> take (length path) s3_path = path"
  then have "s3_path \<noteq> [] \<and> hd s3_path = CHR ''/''"
    by (cases path; cases s3_path) auto
  then show j: "path_join path s3_path = s3_path" by (simp add: path_join_def)
  show "upload_key path s3_path = lstrip_by is_slash s3_path" by (simp add: upload_key_def j)
next
  let ?q = "strip_by is_slash x"
  assume a: "path = CHR ''/'' # ?q \<and> rel \<noteq> [] \<and> hd rel \<noteq> CHR ''/''"
  have q: "?q \<noteq> [] \<Longrightarrow> hd ?q \<noteq> CHR ''/'' \<and> last ?q \<noteq> CHR ''/''"
    using strip_hd [of is_slash x] strip_last [of is_slash x] by (simp add: is_slash_def)
  have j: "path_join path rel = (if ?q = [] then CHR ''/'' # rel else CHR ''/'' # ?q @ ''/'' @ rel)"
    using a q by (auto simp: path_join_def)
  show "take (length path) (path_join path rel) = path" unfolding j using a by auto
  have st: "path_join path rel \<noteq> [] \<and> hd (path_join path rel) = CHR ''/''"
    by (simp add: j)
  have abs: "path_join path (path_join path rel) = path_join path rel"
    using st unfolding path_join_def [of path "path_join path rel"] by simp
  have k0: "upload_key path (path_join path rel) = lstrip_by is_slash (path_join path rel)"
    by (simp add: upload_key_def abs)
  have k1: "lstrip_by is_slash (path_join path rel) = (if ?q = [] then rel else ?q @ ''/'' @ rel)"
    unfolding j using a q
    by (cases "?q = []") (simp_all add: lstrip_slash_Cons lstrip_slash_id)
  have k: "upload_key path (path_join path rel) = (if ?q = [] then rel else ?q @ ''/'' @ rel)"
    using k0 k1 by (rule trans)
  show "upload_key path (path_join path rel) = tl (path_join path rel)"
    unfolding k by (simp add: j)
  show "upload_key path (path_join path rel) = (if ?q = [] then rel else ?q @ ''/'' @ rel)"
    by (rule k)
qed

theorem upload_key_of_prefixed_path_witness:
  "upload_key ''/prod'' ''/prod/backup/dev.postgresql/latest'' = ''prod/backup/dev.postgresql/latest''
   \<and> upload_key ''/prod'' (path_join ''/prod'' ''backup/dev.postgresql/latest'')
        = ''prod/backup/dev.postgresql/latest''
   \<and> upload_key ''/'' (path_join ''/'' ''backup/dev.postgresql/latest'')
        = ''backup/dev.postgresql/latest''"
proof -
  have s: "strip_by is_slash ''/prod/'' = ''prod''" "strip_by is_slash [] = []"
    "lstrip_by is_slash ''/prod/backup/dev.postgresql/latest'' = ''prod/backup/dev.postgresql/latest''"
    by (simp_all add: string_ops)
  show ?thesis
    using upload_key_of_prefixed_path
            [of "''/prod''" "''/prod/backup/dev.postgresql/latest''" "''/prod/''"
                "''backup/dev.postgresql/latest''"]
          upload_key_of_prefixed_path
            [of "''/''" "''/''" "[]" "''backup/dev.postgresql/latest''"]
    by (simp add: s path_join_def)
qed


text \<open>
  C7. For the same result of the engine's introspection, when the listing that shows the
  failed backups succeeds, so does the listing that hides them, and it is a subset of the
  former. The ids listed with the failed backups are those of all entries; the ids listed
  without them are those of the entries whose error field is false or empty: the entries
  left out are exactly those whose error field is set.
\<close>

theorem catalog_without_failed:
  assumes "catalog e True = Inr all"
  shows "\<exists>some. catalog e False = Inr some \<and> set some \<subseteq> set all
      \<and> set (keys all) = {k. \<exists>b\<in>set (entries e). label_to_backup_id (label b) = Inr k}
      \<and> set (keys some)
          = {k. \<exists>b\<in>set (entries e). \<not> truthy (err b) \<and> label_to_backup_id (label b) = Inr k}"
proof -
  obtain rc out errs where ir: "info_result e = (rc, out, errs)"
    by (cases "info_result e") auto
  have rc: "rc = 0" using assms ir by (auto simp: catalog_def split: if_splits)
  show ?thesis
  proof (cases out)
    case Nil
    then show ?thesis using assms ir rc by (simp add: catalog_def entries_def keys_def)
  next
    case (Cons r rest)
    then have en: "entries e = backup r" using ir by (simp add: entries_def)
    from assms ir rc Cons obtain ps where ps: "id_pairs (name r) (backup r) = Inr ps"
      and all: "all = ordered_dict ps"
      by (auto simp: catalog_def filter_shown_True split: sum.splits)
    from id_pairs_filter [OF ps] obtain qs where
      qs: "id_pairs (name r) (filter (shown False) (backup r)) = Inr qs" by blast
    have some: "catalog e False = Inr (ordered_dict qs)"
      using ir rc Cons qs by (simp add: catalog_def)
    have sps: "set ps = {(k, name r) | k. \<exists>b\<in>set (backup r). label_to_backup_id (label b) = Inr k}"
      using ps by (rule id_pairs_set)
    have sqs: "set qs = {(k, name r) | k. \<exists>b\<in>set (filter (shown False) (backup r)).
                        label_to_backup_id (label b) = Inr k}"
      using qs by (rule id_pairs_set)
    have a: "set (ordered_dict ps) = set ps" using sps by (intro set_ordered_dict [of _ "name r"]) auto
    have b: "set (ordered_dict qs) = set qs" using sqs by (intro set_ordered_dict [of _ "name r"]) auto
    have sub: "set (ordered_dict qs) \<subseteq> set all" unfolding all a b sps sqs by auto
    have k1: "set (keys all) = {k. \<exists>b\<in>set (entries e). label_to_backup_id (label b) = Inr k}"
      unfolding keys_def set_map all a sps en by force
    have k2: "set (keys (ordered_dict qs)) = {k. \<exists>b\<in>set (entries e). \<not> truthy (err b)
                  \<and> label_to_backup_id (label b) = Inr k}"
      unfolding keys_def set_map b sqs en by (force simp: shown_def)
    show ?thesis using some sub k1 k2 by blast
  qed
qed

theorem catalog_without_failed_witness:
  "catalog env0 True = Inr [(''2023-01-05T12:34:56Z'', ''dev.postgresql''),
                            (''2023-01-06T01:02:03Z'', ''dev.postgresql'')]
   \<and> (\<exists>some. catalog env0 False = Inr some
        \<and> set some \<subseteq> {(''2023-01-05T12:34:56Z'', ''dev.postgresql''),
                         (''2023-01-06T01:02:03Z'', ''dev.postgresql'')})"
proof -
  have h: "catalog env0 True = Inr [(''2023-01-05T12:34:56Z'', ''dev.postgresql''),
                            (''2023-01-06T01:02:03Z'', ''dev.postgresql'')]"
    by (rule catalog0)
  from catalog_without_failed [OF h] show ?thesis using h by auto
qed


text \<open>
  C2. A run of the stanza check on the leader with the init-pending marker set attempts
  the check command at most five times, sleeps 3 seconds and nothing else between two
  attempts, and clears the init-pending marker. When all five attempts fail, there were
  five, the stanza name is set to the empty string, the configuration is pushed again and
  the status is Blocked with the failed-to-initialise message. When an attempt succeeds,
  the stanza name is kept and the status is Active.
\<close>

theorem check_stanza_retries:
  assumes "is_leader e" "app_peer_data c ''init-pgbackrest'' \<noteq> None"
  shows "\<exists>new. trace (check_stanza e c) = trace c @ new
      \<and> count_list new (ExecuteCommand (check_command e)) \<le> 5
      \<and> (\<forall>d. Sleep d \<in> set new \<longrightarrow> d = 3)
      \<and> count_list new (Sleep 3) + 1 = count_list new (ExecuteCommand (check_command e))
      \<and> app_peer_data (check_stanza e c) ''init-pgbackrest'' = None
      \<and> ((\<forall>k. 1 \<le> k \<and> k \<le> 5 \<longrightarrow> fst (check_result e k) \<noteq> 0) \<longrightarrow>
            count_list new (ExecuteCommand (check_command e)) = 5
            \<and> app_peer_data (check_stanza e c) ''stanza'' = Some []
            \<and> last new = UpdateConfig None
            \<and> status (check_stanza e c) = BlockedStatus FAILED_TO_INITIALIZE_STANZA_ERROR_MESSAGE)
      \<and> ((\<exists>k. 1 \<le> k \<and> k \<le> 5 \<and> fst (check_result e k) = 0) \<longrightarrow>
            app_peer_data (check_stanza e c) ''stanza'' = app_peer_data c ''stanza''
            \<and> status (check_stanza e c) = ActiveStatus)"
proof -
  let ?c2 = "(emit (UpdateConfig None) c)\<lparr>status := MaintenanceStatus ''checking stanza''\<rparr>"
  obtain y where y: "app_peer_data c ''init-pgbackrest'' = Some y" using assms(2) by auto
  obtain ok c3 where r: "retrying e 1 ?c2 = (ok, c3)" by (cases "retrying e 1 ?c2") auto
  from retrying_props [OF r] obtain new where new: "trace c3 = trace ?c2 @ new"
    "app_peer_data c3 = app_peer_data ?c2"
    "count_list new (ExecuteCommand (check_command e)) \<le> 5"
    "\<forall>d. Sleep d \<in> set new \<longrightarrow> d = 3"
    "count_list new (Sleep 3) + 1 = count_list new (ExecuteCommand (check_command e))"
    "\<forall>x\<in>set new. x = ReloadPatroniConfiguration \<or> x = Sleep 3
            \<or> x = ExecuteCommand (check_command e)"
    "ok \<longleftrightarrow> (\<exists>k. 1 \<le> k \<and> k \<le> 5 \<and> fst (check_result e k) = 0)"
    "\<not> ok \<longrightarrow> count_list new (ExecuteCommand (check_command e)) = 5"
    by force
  have nu: "count_list new (UpdateConfig None) = 0" "\<forall>d. UpdateConfig None \<noteq> Sleep d"
    using new(6) by (auto simp: count_list_0_iff)
  show ?thesis
  proof (cases ok)
    case True
    have cs: "check_stanza e c
        = c3\<lparr>status := ActiveStatus, app_peer_data := (app_peer_data c3)(''init-pgbackrest'' := None)\<rparr>"
      using assms(1) y r True by (simp add: check_stanza_def Let_def)
    show ?thesis
      apply (rule exI [of _ "UpdateConfig None # new"])
      using True new nu by (auto simp: cs)
  next
    case False
    have cs: "check_stanza e c
        = (emit (UpdateConfig None)
            (c3\<lparr>app_peer_data := (app_peer_data c3)(''stanza'' \<mapsto> [], ''init-pgbackrest'' := None)\<rparr>))
          \<lparr>status := BlockedStatus FAILED_TO_INITIALIZE_STANZA_ERROR_MESSAGE,
            app_peer_data := (app_peer_data c3)(''stanza'' \<mapsto> [], ''init-pgbackrest'' := None)\<rparr>"
      using assms(1) y r False by (simp add: check_stanza_def Let_def emit_def)
    show ?thesis
      apply (rule exI [of _ "UpdateConfig None # new @ [UpdateConfig None]"])
      using False new nu by (auto simp: cs)
  qed
qed

theorem check_stanza_retries_witness:
  "status (check_stanza env_check_fails charm_init)
      = BlockedStatus FAILED_TO_INITIALIZE_STANZA_ERROR_MESSAGE
   \<and> app_peer_data (check_stanza env_check_fails charm_init) ''stanza'' = Some []
   \<and> app_peer_data (check_stanza env_check_fails charm_init) ''init-pgbackrest'' = None
   \<and> status (check_stanza env0 charm_init) = ActiveStatus
   \<and> app_peer_data (check_stanza env0 charm_init) ''stanza'' = Some ''dev.postgresql''
   \<and> app_peer_data (check_stanza env0 charm_init) ''init-pgbackrest'' = None"
proof -
  have l: "is_leader env_check_fails" "is_leader env0"
    by (simp_all add: env_check_fails_def env0_def)
  have i: "app_peer_data charm_init ''init-pgbackrest'' \<noteq> None"
    by (simp add: charm_init_def charm0_def)
  have f: "\<forall>k. 1 \<le> k \<and> k \<le> 5 \<longrightarrow> fst (check_result env_check_fails k) \<noteq> 0"
    by (simp add: env_check_fails_def env0_def)
  have s: "\<exists>k. 1 \<le> k \<and> k \<le> 5 \<and> fst (check_result env0 k) = 0"
    by (rule exI [of _ 1]) (simp add: env0_def)
  have st: "app_peer_data charm_init ''stanza'' = Some ''dev.postgresql''"
    by (simp add: charm_init_def charm0_def)
  from check_stanza_retries [OF l(1) i] check_stanza_retries [OF l(2) i] f s st
  show ?thesis by auto
qed





text \<open>
  C4. A backup run whose engine command exits 0, and whose listing of the catalog gives a
  last backup, reports the failure \<^verbatim>\<open>Error uploading logs to S3\<close> when the upload of
  the log fails (the client cannot be built, or the upload is refused), and reports the
  backup as created when the upload succeeds. A backup run whose engine command exits
  non-zero fails with the engine's stderr in the message whatever the upload does; the
  upload is the last thing it does when the client can be built.
\<close>

theorem run_backup_log_upload:
  "(fst (backup_result e) = 0 \<and> catalog e True = Inr backups \<and> backups \<noteq> []
      \<and> s3_parameters ''bucket'' = Some bucket_name \<and> get_str s3_parameters ''path'' = Inr path
      \<and> (\<not> client_ready e s3_parameters
          \<or> \<not> upload_ok e (upload_key path (path_join path (log_path e (last (keys backups)))))) \<longrightarrow>
        fst (run_backup e s3_parameters c) = None
        \<and> event (snd (run_backup e s3_parameters c)) = Fail ''Error uploading logs to S3'')
   \<and> (fst (backup_result e) = 0 \<and> catalog e True = Inr backups \<and> backups \<noteq> []
      \<and> s3_parameters ''bucket'' = Some bucket_name \<and> get_str s3_parameters ''path'' = Inr path
      \<and> client_ready e s3_parameters
      \<and> upload_ok e (upload_key path (path_join path (log_path e (last (keys backups))))) \<longrightarrow>
        fst (run_backup e s3_parameters c) = None
        \<and> event (snd (run_backup e s3_parameters c)) = Results ''backup-status'' ''backup created'')
   \<and> (fst (backup_result e) \<noteq> 0
      \<and> s3_parameters ''bucket'' = Some bucket_name \<and> get_str s3_parameters ''path'' = Inr path \<longrightarrow>
        fst (run_backup e s3_parameters c) = None
        \<and> event (snd (run_backup e s3_parameters c))
            = Fail (''Failed to backup PostgreSQL with error: '' @ snd (snd (backup_result e)))
        \<and> (client_ready e s3_parameters \<longrightarrow>
              (\<exists>key. last (trace (snd (run_backup e s3_parameters c))) = UploadFile bucket_name key)))"
proof -
  obtain rc out errs where br: "backup_result e = (rc, out, errs)"
    by (cases "backup_result e") auto
  obtain fb where fb: "strftime (now e) ''%Y%m%d-%H%M%SF'' = Inr fb"
    using fallback_label by blast
  show ?thesis
  proof (intro conjI impI)
    assume a: "fst (backup_result e) = 0 \<and> catalog e True = Inr backups \<and> backups \<noteq> []
      \<and> s3_parameters ''bucket'' = Some bucket_name \<and> get_str s3_parameters ''path'' = Inr path
      \<and> (\<not> client_ready e s3_parameters
          \<or> \<not> upload_ok e (upload_key path (path_join path (log_path e (last (keys backups))))))"
    then have u: "s3_parameters ''bucket'' = Some bucket_name" "get_str s3_parameters ''path'' = Inr path"
      by simp_all
    show "fst (run_backup e s3_parameters c) = None"
      using a br by (auto simp: run_backup_def list_backups_def Let_def keys_Nil upload_result [OF u])
    show "event (snd (run_backup e s3_parameters c)) = Fail ''Error uploading logs to S3''"
      using a br by (auto simp: run_backup_def list_backups_def Let_def keys_Nil upload_result [OF u])
  next
    assume a: "fst (backup_result e) = 0 \<and> catalog e True = Inr backups \<and> backups \<noteq> []
      \<and> s3_parameters ''bucket'' = Some bucket_name \<and> get_str s3_parameters ''path'' = Inr path
      \<and> client_ready e s3_parameters
      \<and> upload_ok e (upload_key path (path_join path (log_path e (last (keys backups)))))"
    then have u: "s3_parameters ''bucket'' = Some bucket_name" "get_str s3_parameters ''path'' = Inr path"
      by simp_all
    show "fst (run_backup e s3_parameters c) = None"
      using a br by (auto simp: run_backup_def list_backups_def Let_def keys_Nil upload_result [OF u])
    show "event (snd (run_backup e s3_parameters c)) = Results ''backup-status'' ''backup created''"
      using a br by (auto simp: run_backup_def list_backups_def Let_def keys_Nil upload_result [OF u])
  next
    assume a: "fst (backup_result e) \<noteq> 0
      \<and> s3_parameters ''bucket'' = Some bucket_name \<and> get_str s3_parameters ''path'' = Inr path"
    then have u: "s3_parameters ''bucket'' = Some bucket_name" "get_str s3_parameters ''path'' = Inr path"
      by simp_all
    show "fst (run_backup e s3_parameters c) = None"
      using a br fb by (auto simp: run_backup_def Let_def upload_result [OF u] split: option.splits)
    show "event (snd (run_backup e s3_parameters c))
            = Fail (''Failed to backup PostgreSQL with error: '' @ snd (snd (backup_result e)))"
      using a br fb by (auto simp: run_backup_def Let_def upload_result [OF u] split: option.splits)
    show "\<exists>key. last (trace (snd (run_backup e s3_parameters c))) = UploadFile bucket_name key"
      if "client_ready e s3_parameters"
      using a br fb that by (auto simp: run_backup_def Let_def upload_result [OF u] split: option.splits)
  qed
qed

theorem run_backup_log_upload_witness:
  "event (snd (run_backup env_upload_fails s3_ready charm0)) = Fail ''Error uploading logs to S3''
   \<and> event (snd (run_backup env0 s3_ready charm0)) = Results ''backup-status'' ''backup created''
   \<and> event (snd (run_backup env_backup_fails s3_ready charm0))
       = Fail ''Failed to backup PostgreSQL with error: unable to back up''
   \<and> event (snd (run_backup (env_backup_fails\<lparr>upload_ok := (\<lambda>k. False)\<rparr>) s3_ready charm0))
       = Fail ''Failed to backup PostgreSQL with error: unable to back up''"
proof -
  let ?all = "[(''2023-01-05T12:34:56Z'', ''dev.postgresql''),
               (''2023-01-06T01:02:03Z'', ''dev.postgresql'')]"
  have h1: "fst (backup_result env_upload_fails) = 0 \<and> catalog env_upload_fails True = Inr ?all
      \<and> ?all \<noteq> []
      \<and> s3_ready ''bucket'' = Some (PStr ''pg-backups'') \<and> get_str s3_ready ''path'' = Inr ''/prod''
      \<and> (\<not> client_ready env_upload_fails s3_ready
          \<or> \<not> upload_ok env_upload_fails
                (upload_key ''/prod'' (path_join ''/prod'' (log_path env_upload_fails (last (keys ?all))))))"
    using catalog0(1) by (simp add: env_upload_fails_sel s3_ready_sel)
  have h2: "fst (backup_result env0) = 0 \<and> catalog env0 True = Inr ?all \<and> ?all \<noteq> []
      \<and> s3_ready ''bucket'' = Some (PStr ''pg-backups'') \<and> get_str s3_ready ''path'' = Inr ''/prod''
      \<and> client_ready env0 s3_ready
      \<and> upload_ok env0 (upload_key ''/prod'' (path_join ''/prod'' (log_path env0 (last (keys ?all)))))"
    using catalog0(1) by (simp add: env0_sel s3_ready_sel) (simp add: env0_def)
  have h3: "fst (backup_result env_backup_fails) \<noteq> 0
      \<and> s3_ready ''bucket'' = Some (PStr ''pg-backups'') \<and> get_str s3_ready ''path'' = Inr ''/prod''"
    "fst (backup_result (env_backup_fails\<lparr>upload_ok := (\<lambda>k. False)\<rparr>)) \<noteq> 0
      \<and> s3_ready ''bucket'' = Some (PStr ''pg-backups'') \<and> get_str s3_ready ''path'' = Inr ''/prod''"
    by (simp_all add: env_backup_fails_sel s3_ready_sel)
  note a = run_backup_log_upload [of env_upload_fails ?all s3_ready "PStr ''pg-backups''" "''/prod''" charm0,
      THEN conjunct1, THEN mp, OF h1, THEN conjunct2]
  note b = run_backup_log_upload [of env0 ?all s3_ready "PStr ''pg-backups''" "''/prod''" charm0,
      THEN conjunct2, THEN conjunct1, THEN mp, OF h2, THEN conjunct2]
  note c = run_backup_log_upload [of env_backup_fails _ s3_ready "PStr ''pg-backups''" "''/prod''" charm0,
      THEN conjunct2, THEN conjunct2, THEN mp, OF h3(1), THEN conjunct2, THEN conjunct1]
  note d = run_backup_log_upload [of "env_backup_fails\<lparr>upload_ok := (\<lambda>k. False)\<rparr>" _ s3_ready
      "PStr ''pg-backups''" "''/prod''" charm0,
      THEN conjunct2, THEN conjunct2, THEN mp, OF h3(2), THEN conjunct2, THEN conjunct1]
  show ?thesis
    using a b c d by (simp add: env_backup_fails_sel)
qed


text \<open>
  C1. A restore whose listing of the catalog without the failed backups raises, or does not
  have the backup-id given as a key, fails: the event is failed, or an exception leaves the
  action (the one of the S3-settings check, or the one of the listing when it is not a
  \<^verbatim>\<open>ListBackupsError\<close>). The status, the application peer data and the unit peer data
  are as before, and the only effect the action may add is the engine's info command: the
  database process is not stopped and no directory is removed.
\<close>

theorem restore_unknown_backup_id:
  assumes "(\<exists>x. catalog e False = Inl x)
     \<or> (\<exists>backups. catalog e False = Inr backups
           \<and> (case param of Some i \<Rightarrow> i | None \<Rightarrow> []) \<notin> set (keys backups))"
  shows "(case fst (on_restore_action e param c) of
            None \<Rightarrow> (\<exists>m. event (snd (on_restore_action e param c)) = Fail m)
          | Some x \<Rightarrow> are_backup_settings_ok e = Inl x
                       \<or> (catalog e False = Inl x \<and> (\<forall>m. x \<noteq> ListBackupsError m)))
    \<and> status (snd (on_restore_action e param c)) = status c
    \<and> app_peer_data (snd (on_restore_action e param c)) = app_peer_data c
    \<and> unit_peer_data (snd (on_restore_action e param c)) = unit_peer_data c
    \<and> (new_trace c (snd (on_restore_action e param c)) = []
        \<or> new_trace c (snd (on_restore_action e param c)) = [ExecuteCommand (info_command e)])
    \<and> StopPatroni \<notin> set (new_trace c (snd (on_restore_action e param c)))
    \<and> (\<forall>p. Rmtree p \<notin> set (new_trace c (snd (on_restore_action e param c))))"
proof -
  consider (raise) x where "pre_restore_checks e param c = (Inl x, c)" "are_backup_settings_ok e = Inl x"
    | (deny) m where "pre_restore_checks e param c = (Inr False, c\<lparr>event := Fail m\<rparr>)"
    | (pass) "pre_restore_checks e param c = (Inr True, c)"
    using pre_restore_cases [of e param c] by blast
  then show ?thesis
  proof cases
    case raise
    then show ?thesis by (simp add: on_restore_action_def new_trace_def)
  next
    case deny
    then show ?thesis by (simp add: on_restore_action_def new_trace_def)
  next
    case pass
    from assms show ?thesis
    proof
      assume "\<exists>x. catalog e False = Inl x"
      then obtain x where "catalog e False = Inl x" by blast
      then show ?thesis
        using pass
        by (cases x) (simp_all add: on_restore_action_def list_backups_def Let_def new_trace_def)
    next
      assume "\<exists>backups. catalog e False = Inr backups
           \<and> (case param of Some i \<Rightarrow> i | None \<Rightarrow> []) \<notin> set (keys backups)"
      then obtain backups where "catalog e False = Inr backups"
        "(case param of Some i \<Rightarrow> i | None \<Rightarrow> []) \<notin> set (keys backups)" by blast
      then show ?thesis
        using pass by (simp add: on_restore_action_def list_backups_def Let_def new_trace_def)
    qed
  qed
qed

theorem restore_unknown_backup_id_witness:
  "on_restore_action env0 (Some ''2023-01-06T01:02:03Z'') charm0
     = (None, charm0\<lparr>event := Fail ''Invalid backup-id: 2023-01-06T01:02:03Z'',
                      trace := [ExecuteCommand (info_command env0)]\<rparr>)
   \<and> StopPatroni \<notin> set (new_trace charm0
         (snd (on_restore_action env0 (Some ''2023-01-06T01:02:03Z'') charm0)))
   \<and> event (snd (on_restore_action env_listing_fails (Some ''2023-01-05T12:34:56Z'') charm0))
       = Fail ''Failed to retrieve backup id''
   \<and> StopPatroni \<notin> set (new_trace charm0
         (snd (on_restore_action env_listing_fails (Some ''2023-01-05T12:34:56Z'') charm0)))"
proof -
  have h1: "(\<exists>x. catalog env0 False = Inl x)
     \<or> (\<exists>backups. catalog env0 False = Inr backups
           \<and> (case Some ''2023-01-06T01:02:03Z'' of Some i \<Rightarrow> i | None \<Rightarrow> []) \<notin> set (keys backups))"
    by (simp add: catalog0 keys_def)
  have c2: "catalog env_listing_fails False
      = Inl (ListBackupsError ''Failed to list backups with error: unable to open repository'')"
    by (simp add: catalog_def env_listing_fails_sel)
  have h2: "(\<exists>x. catalog env_listing_fails False = Inl x)
     \<or> (\<exists>backups. catalog env_listing_fails False = Inr backups
           \<and> (case Some ''2023-01-05T12:34:56Z'' of Some i \<Rightarrow> i | None \<Rightarrow> []) \<notin> set (keys backups))"
    by (simp add: c2)
  have p1: "pre_restore_checks env0 (Some ''2023-01-06T01:02:03Z'') charm0 = (Inr True, charm0)"
    by (simp add: pre_restore_checks_def settings0 env0_sel charm0_sel)
  have p2: "pre_restore_checks env_listing_fails (Some ''2023-01-05T12:34:56Z'') charm0
      = (Inr True, charm0)"
    by (simp add: pre_restore_checks_def env_listing_fails_sel charm0_sel)
  have r1: "on_restore_action env0 (Some ''2023-01-06T01:02:03Z'') charm0
     = (None, charm0\<lparr>event := Fail ''Invalid backup-id: 2023-01-06T01:02:03Z'',
                      trace := [ExecuteCommand (info_command env0)]\<rparr>)"
    by (simp add: on_restore_action_def p1 list_backups_def catalog0 keys_def emit_def charm0_sel)
  have r2: "event (snd (on_restore_action env_listing_fails (Some ''2023-01-05T12:34:56Z'') charm0))
       = Fail ''Failed to retrieve backup id''"
    by (simp add: on_restore_action_def p2 list_backups_def c2)
  from restore_unknown_backup_id [OF h1, of charm0] restore_unknown_backup_id [OF h2, of charm0]
    r1 r2
  show ?thesis by simp
qed


text \<open>
  C9. A restore that passes its checks, whose backup-id is a key of the catalog, and that
  stops the database and empties the data directory, writes as the restore directive the
  label the conversion of the backup-id gives: the backup-id read in the public format,
  printed in the engine's timestamp format, followed by \<^verbatim>\<open>F\<close>; the stanza written is
  that of the catalog. When the conversion raises, the exception leaves the action and the
  peer data is as before. The backup-id comes from an entry of the catalog that has no
  error, and for every entry it comes from, whatever the last character of its label, when
  the year of its timestamp has four digits the directive is that timestamp in the engine's
  format followed by \<^verbatim>\<open>F\<close>.
\<close>

theorem restore_directive_label:
  assumes "pre_restore_checks e (Some backup_id) c = (Inr True, c)"
    and "catalog e False = Inr backups"
    and "backup_id \<in> set (keys backups)"
    and "stop_patroni_ok e"
    and "data_path_is_dir e \<longrightarrow> rmtree_ok e"
  shows "(\<forall>x. backup_id_to_label backup_id = Inl x \<longrightarrow>
            fst (on_restore_action e (Some backup_id) c) = Some x
            \<and> app_peer_data (snd (on_restore_action e (Some backup_id) c)) = app_peer_data c)
    \<and> (\<forall>lbl. backup_id_to_label backup_id = Inr lbl \<longrightarrow>
            app_peer_data (snd (on_restore_action e (Some backup_id) c)) ''restoring-backup''
              = Some lbl
            \<and> app_peer_data (snd (on_restore_action e (Some backup_id) c)) ''restore-stanza''
              = Some (lookup backups backup_id)
            \<and> (\<exists>dt ts. strptime backup_id BACKUP_ID_FORMAT = Inr dt
                  \<and> strftime dt PGBACKREST_BACKUP_ID_FORMAT = Inr ts \<and> lbl = ts @ ''F''))
    \<and> (\<exists>b\<in>set (entries e). \<not> truthy (err b) \<and> label_to_backup_id (label b) = Inr backup_id)
    \<and> (\<forall>b dt. b \<in> set (entries e) \<and> label_to_backup_id (label b) = Inr backup_id
            \<and> strptime (butlast (label b)) PGBACKREST_BACKUP_ID_FORMAT = Inr dt
            \<and> 1000 \<le> year dt \<longrightarrow>
            (\<exists>ts. strftime dt PGBACKREST_BACKUP_ID_FORMAT = Inr ts
               \<and> app_peer_data (snd (on_restore_action e (Some backup_id) c)) ''restoring-backup''
                   = Some (ts @ ''F'')))"
proof -
  have raised: "fst (on_restore_action e (Some backup_id) c) = Some x
            \<and> app_peer_data (snd (on_restore_action e (Some backup_id) c)) = app_peer_data c"
    if "backup_id_to_label backup_id = Inl x" for x
    using that by (rule restore_validated(1) [OF assms])
  have written: "app_peer_data (snd (on_restore_action e (Some backup_id) c)) ''restoring-backup''
              = Some lbl
            \<and> app_peer_data (snd (on_restore_action e (Some backup_id) c)) ''restore-stanza''
              = Some (lookup backups backup_id)"
    if "backup_id_to_label backup_id = Inr lbl" for lbl
    using restore_validated(2) [OF assms that] by simp
  have form: "\<exists>dt ts. strptime backup_id BACKUP_ID_FORMAT = Inr dt
                  \<and> strftime dt PGBACKREST_BACKUP_ID_FORMAT = Inr ts \<and> lbl = ts @ ''F''"
    if "backup_id_to_label backup_id = Inr lbl" for lbl
    using that by (auto simp: backup_id_to_label_def split: sum.splits)
  have listed: "\<exists>b\<in>set (entries e). \<not> truthy (err b) \<and> label_to_backup_id (label b) = Inr backup_id"
    using assms(3) catalog_keys [OF assms(2)] by (simp add: shown_def)
  have entry: "\<exists>ts. strftime dt PGBACKREST_BACKUP_ID_FORMAT = Inr ts
               \<and> app_peer_data (snd (on_restore_action e (Some backup_id) c)) ''restoring-backup''
                   = Some (ts @ ''F'')"
    if b: "label_to_backup_id (label b) = Inr backup_id"
      and p: "strptime (butlast (label b)) PGBACKREST_BACKUP_ID_FORMAT = Inr dt"
      and y: "1000 \<le> year dt" for b dt
  proof -
    from b p have bid: "strftime dt BACKUP_ID_FORMAT = Inr backup_id"
      by (simp add: label_to_backup_id_def)
    have v: "valid_datetime dt" using p by (rule strptime_valid)
    have bk: "strptime backup_id BACKUP_ID_FORMAT = Inr dt"
      using strptime_strftime [OF v _ bid y] by simp
    obtain ts where ts: "strftime dt PGBACKREST_BACKUP_ID_FORMAT = Inr ts"
      using strftime_total [of PGBACKREST_BACKUP_ID_FORMAT dt] by auto
    have "backup_id_to_label backup_id = Inr (ts @ ''F'')"
      using bk ts by (simp add: backup_id_to_label_def)
    from written [OF this] ts show ?thesis by blast
  qed
  show ?thesis using raised written form listed entry by blast
qed

theorem restore_directive_label_witness:
  "label (hd (entries env_incremental)) = ''20230107-101112I''
   \<and> catalog env_incremental False = Inr [(''2023-01-07T10:11:12Z'', ''dev.postgresql'')]
   \<and> app_peer_data (snd (on_restore_action env_incremental (Some ''2023-01-07T10:11:12Z'') charm0))
       ''restoring-backup'' = Some ''20230107-101112F''
   \<and> app_peer_data (snd (on_restore_action env_incremental (Some ''2023-01-07T10:11:12Z'') charm0))
       ''restore-stanza'' = Some ''dev.postgresql''
   \<and> catalog env_old False = Inr [(''999-01-05T12:34:56Z'', ''dev.postgresql'')]
   \<and> fst (on_restore_action env_old (Some ''999-01-05T12:34:56Z'') charm0) = Some ValueError
   \<and> app_peer_data (snd (on_restore_action env_old (Some ''999-01-05T12:34:56Z'') charm0))
       ''restoring-backup'' = None"
proof -
  have p1: "pre_restore_checks env_incremental (Some ''2023-01-07T10:11:12Z'') charm0
      = (Inr True, charm0)"
    by (simp add: pre_restore_checks_def env_incremental_sel charm0_sel)
  have p2: "pre_restore_checks env_old (Some ''999-01-05T12:34:56Z'') charm0 = (Inr True, charm0)"
    by (simp add: pre_restore_checks_def env_old_sel charm0_sel)
  have k1: "''2023-01-07T10:11:12Z'' \<in> set (keys [(''2023-01-07T10:11:12Z'', ''dev.postgresql'')])"
    and k2: "''999-01-05T12:34:56Z'' \<in> set (keys [(''999-01-05T12:34:56Z'', ''dev.postgresql'')])"
    by (simp_all add: keys_def)
  have d1: "data_path_is_dir env_incremental \<longrightarrow> rmtree_ok env_incremental"
    and d2: "data_path_is_dir env_old \<longrightarrow> rmtree_ok env_old"
    by (simp_all add: env_incremental_sel env_old_sel)
  note t1 = restore_directive_label [OF p1 catalog_samples(1) k1 env_incremental_sel(3) d1]
  note t2 = restore_directive_label [OF p2 catalog_samples(2) k2 env_old_sel(3) d2]
  note w = t1 [THEN conjunct2, THEN conjunct1, THEN spec, THEN mp, OF label_samples(1)]
  have m: "\<lparr>label = ''20230107-101112I'', err = PBool False\<rparr> \<in> set (entries env_incremental)
      \<and> label_to_backup_id (label \<lparr>label = ''20230107-101112I'', err = PBool False\<rparr>)
          = Inr ''2023-01-07T10:11:12Z''
      \<and> strptime (butlast (label \<lparr>label = ''20230107-101112I'', err = PBool False\<rparr>))
          PGBACKREST_BACKUP_ID_FORMAT
          = Inr \<lparr>year = 2023, month = 1, day = 7, hour = 10, minute = 11, second = 12\<rparr>
      \<and> 1000 \<le> year \<lparr>year = 2023, month = 1, day = 7, hour = 10, minute = 11, second = 12\<rparr>"
    using label_samples(3,4)
    by (simp add: env_incremental_sel label_to_backup_id_def)
  note n = t1 [THEN conjunct2, THEN conjunct2, THEN conjunct2, THEN spec, THEN spec, THEN mp, OF m]
  note x = t2 [THEN conjunct1, THEN spec, THEN mp, OF label_samples(2)]
  have a: "label (hd (entries env_incremental)) = ''20230107-101112I''"
    by (simp add: env_incremental_sel)
  have b: "lookup [(''2023-01-07T10:11:12Z'', ''dev.postgresql'')] ''2023-01-07T10:11:12Z''
      = ''dev.postgresql''"
    by (simp add: lookup_def)
  have c: "app_peer_data (snd (on_restore_action env_incremental (Some ''2023-01-07T10:11:12Z'') charm0))
       ''restoring-backup'' = Some ''20230107-101112F''"
  proof -
    from n obtain ts where
      t: "strftime \<lparr>year = 2023, month = 1, day = 7, hour = 10, minute = 11, second = 12\<rparr>
            PGBACKREST_BACKUP_ID_FORMAT = Inr ts"
      and u: "app_peer_data (snd (on_restore_action env_incremental
                (Some ''2023-01-07T10:11:12Z'') charm0)) ''restoring-backup'' = Some (ts @ ''F'')"
      by blast
    from t have "ts = ''20230107-101112''" unfolding label_samples(5) by simp
    with u show ?thesis by simp
  qed
  have d: "app_peer_data (snd (on_restore_action env_incremental (Some ''2023-01-07T10:11:12Z'') charm0))
       ''restore-stanza'' = Some ''dev.postgresql''"
    using w b by simp
  have f: "app_peer_data (snd (on_restore_action env_old (Some ''999-01-05T12:34:56Z'') charm0))
       ''restoring-backup'' = None"
    using x by (simp add: charm0_sel)
  show ?thesis using a c d f x catalog_samples by simp
qed


end
